theory Spec2Isabelle
  imports Main
begin

section \<open>Text\<close>

text \<open>
  A Python \<open>str\<close> is a sequence of Unicode code points, so a text is a list of
  natural numbers. \<open>str\<close> turns an ASCII literal into such a text. A byte string is a list
  of numbers below 256.
\<close>

type_synonym py_str = "nat list"

type_synonym py_bytes = "nat list"

definition str :: "string \<Rightarrow> py_str" where
  "str s = map of_char s"

text \<open>The code points for which Python's \<open>str.isspace\<close> holds.\<close>

definition is_space :: "nat \<Rightarrow> bool" where
  "is_space c =
     ((9 \<le> c \<and> c \<le> 13) \<or> (28 \<le> c \<and> c \<le> 32) \<or> c = 133 \<or> c = 160 \<or> c = 5760 \<or>
      (8192 \<le> c \<and> c \<le> 8202) \<or> c = 8232 \<or> c = 8233 \<or> c = 8239 \<or> c = 8287 \<or>
      c = 12288)"

text \<open>The line boundaries of \<open>str.splitlines\<close>; the pair CR LF counts as one.\<close>

definition is_linebreak :: "nat \<Rightarrow> bool" where
  "is_linebreak c = (c \<in> set [10, 11, 12, 13, 28, 29, 30, 133, 8232, 8233])"

text \<open>\<open>s.strip()\<close> and \<open>s.rstrip('\n')\<close>.\<close>

definition strip :: "py_str \<Rightarrow> py_str" where
  "strip s = rev (dropWhile is_space (rev (dropWhile is_space s)))"

definition rstrip_nl :: "py_str \<Rightarrow> py_str" where
  "rstrip_nl s = rev (dropWhile (\<lambda>c. c = 10) (rev s))"

text \<open>
  \<open>s.splitlines(keepends=True)\<close>: \<open>cur\<close> is the line being read. The last line needs
  no terminator, and an empty text has no line.
\<close>

fun splitlines_from :: "py_str \<Rightarrow> py_str \<Rightarrow> py_str list" where
  "splitlines_from cur [] = (if cur = [] then [] else [cur])"
| "splitlines_from cur (c # cs) =
    (if c = 13 then
       (case cs of
          [] \<Rightarrow> [cur @ [c]]
        | d # ds \<Rightarrow> if d = 10 then (cur @ [c, d]) # splitlines_from [] ds
                   else (cur @ [c]) # splitlines_from [] cs)
     else if is_linebreak c then (cur @ [c]) # splitlines_from [] cs
     else splitlines_from (cur @ [c]) cs)"

definition splitlines :: "py_str \<Rightarrow> py_str list" where
  "splitlines s = splitlines_from [] s"

text \<open>
  The slice \<open>xs[i:j]\<close> for integers of either sign: a negative bound counts from the end,
  and both bounds are clipped to the list.
\<close>

definition py_slice :: "'a list \<Rightarrow> int \<Rightarrow> int \<Rightarrow> 'a list" where
  "py_slice xs i j =
     (let n = int (length xs);
          lo = (if i < 0 then max 0 (n + i) else min i n);
          hi = (if j < 0 then max 0 (n + j) else min j n)
      in take (nat (hi - lo)) (drop (nat lo) xs))"

section \<open>Exceptions\<close>

text \<open>The exceptions that matter, each with its message.\<close>

datatype exn =
    RepositoryNotFoundError py_str
  | GitCommandError py_str
  | GitTimeoutError py_str
  | ValueError py_str
  | Exception py_str

text \<open>\<open>str(e)\<close>.\<close>

fun exn_text :: "exn \<Rightarrow> py_str" where
  "exn_text (RepositoryNotFoundError m) = m"
| "exn_text (GitCommandError m) = m"
| "exn_text (GitTimeoutError m) = m"
| "exn_text (ValueError m) = m"
| "exn_text (Exception m) = m"

section \<open>DiffGenerator\<close>

datatype diff_op = DIFF_DELETE | DIFF_INSERT | DIFF_EQUAL

type_synonym diffs = "(diff_op \<times> py_str) list"

text \<open>
  Lines 132 to 139 of \<open>history_tracker.py\<close> hand both texts to the diff-match-patch
  library (\<open>diff_linesToChars\<close>, \<open>diff_main\<close>, \<open>diff_charsToLines\<close>), which is not part
  of the repository. The encoding of lines as characters is one to one, so the library
  compares the texts themselves. Its first branches are written out: equal texts give one
  equality (none for the empty text), and with one text empty the other is one insertion
  or one deletion. For two different non-empty texts the library's search is the
  parameter \<open>core\<close>.
\<close>

definition dmp_line_diff ::
  "(py_str \<Rightarrow> py_str \<Rightarrow> diffs) \<Rightarrow> py_str \<Rightarrow> py_str \<Rightarrow> diffs" where
  "dmp_line_diff core text1 text2 =
     (if text1 = text2 then (if text1 = [] then [] else [(DIFF_EQUAL, text1)])
      else if text1 = [] then [(DIFF_INSERT, text2)]
      else if text2 = [] then [(DIFF_DELETE, text1)]
      else core text1 text2)"

text \<open>The prefix a line gets (lines 147 to 152).\<close>

fun mark_line :: "diff_op \<Rightarrow> py_str \<Rightarrow> py_str" where
  "mark_line DIFF_INSERT line = str ''+ '' @ line"
| "mark_line DIFF_DELETE line = str ''- '' @ line"
| "mark_line DIFF_EQUAL line = str ''  '' @ line"

text \<open>
  The loops of lines 142 to 152: \<open>result\<close> collects the marked lines of every chunk,
  without the lines that are empty after \<open>strip\<close>.
\<close>

fun render_lines :: "diffs \<Rightarrow> py_str list" where
  "render_lines [] = []"
| "render_lines ((op, data) # rest) =
     map (mark_line op) (filter (\<lambda>line. strip line \<noteq> []) (splitlines data)) @ render_lines rest"

definition generate_highlighted_diff ::
  "(py_str \<Rightarrow> py_str \<Rightarrow> diffs) \<Rightarrow> py_str \<Rightarrow> py_str \<Rightarrow> py_str" where
  "generate_highlighted_diff core text1 text2 =
     concat (render_lines (dmp_line_diff core text1 text2))"

text \<open>
  Reading a rendered diff back, in the words of the specification: the lines of the
  output that carry a given two-character mark, with the mark removed, concatenated.
\<close>

definition marked_text :: "py_str \<Rightarrow> py_str \<Rightarrow> py_str" where
  "marked_text mark out = concat (map (drop 2) (filter (\<lambda>l. take 2 l = mark) (splitlines out)))"


section \<open>CodeParser\<close>

text \<open>
  The query templates of \<open>QUERIES\<close>, each as the text before and after the place of the
  name (the templates of \<open>module\<close> and \<open>script\<close> have no such place).
\<close>

definition function_query :: "py_str \<times> py_str" where
  "function_query =
     (str ''\<newline>                (function_definition\<newline>                  name: (identifier) @node.name\<newline>                  (#eq? @node.name \"'',
      str ''\")) @node.def\<newline>            '')"

definition class_query :: "py_str \<times> py_str" where
  "class_query =
     (str ''\<newline>                (class_definition\<newline>                  name: (identifier) @node.name\<newline>                  (#eq? @node.name \"'',
      str ''\")) @node.def\<newline>            '')"

definition module_query :: "py_str \<times> py_str" where
  "module_query = (str ''\<newline>                (module) @node.def\<newline>            '', [])"

definition QUERIES :: "(py_str \<times> (py_str \<times> py_str)) list" where
  "QUERIES =
     [(str ''function'', function_query),
      (str ''async_function'', function_query),
      (str ''class'', class_query),
      (str ''module'', module_query),
      (str ''script'', module_query)]"

text \<open>
  The tree-sitter parser is outside the repository: \<open>ts query source\<close> stands for lines
  113 to 115, which parse the source, compile the query and run it. The query is the
  template with the name put in as it is, so a name with a double quote gives a query
  that does not compile, and \<open>language.query\<close> raises (\<open>Inl\<close>). Otherwise the answer is
  the list of captured nodes in order, each with its node type and its text. Lines 117
  to 120 return the first capture that is a definition.
\<close>

type_synonym captures = "py_str \<Rightarrow> py_str \<Rightarrow> exn + (py_str \<times> py_str) list"

fun first_definition :: "(py_str \<times> py_str) list \<Rightarrow> py_str option" where
  "first_definition [] = None"
| "first_definition ((node_type, node_text) # rest) =
     (if node_type \<in> set [str ''function_definition'', str ''class_definition'']
      then Some node_text else first_definition rest)"

text \<open>
  \<open>find_node_body\<close> returns a text or \<open>None\<close> (\<open>Inr\<close>), or the exception of the
  parser leaves it (\<open>Inl\<close>).
\<close>

definition find_node_body ::
  "captures \<Rightarrow> py_str \<Rightarrow> py_str \<Rightarrow> py_str \<Rightarrow> int option \<Rightarrow> int option \<Rightarrow>
   exn + py_str option" where
  "find_node_body ts source_code node_name node_type start_line end_line =
     (case map_of QUERIES node_type of
        None \<Rightarrow> Inr None
      | Some (before_name, after_name) \<Rightarrow>
          if node_type \<in> set [str ''module'', str ''script''] then
            (case (start_line, end_line) of
               (Some s, Some e) \<Rightarrow>
                 Inr (Some (rstrip_nl (concat (py_slice (splitlines source_code) (s - 1) e))))
             | _ \<Rightarrow> Inr (Some (rstrip_nl source_code)))
          else
            (case ts (before_name @ node_name @ after_name) source_code of
               Inl e \<Rightarrow> Inl e
             | Inr captured \<Rightarrow> Inr (first_definition captured)))"


section \<open>GitHistoryManager\<close>

text \<open>
  A commit as GitPython gives it; \<open>committed_datetime\<close> is the commit time already
  formatted by \<open>strftime("%Y-%m-%d %H:%M:%S")\<close>.
\<close>

record commit =
  hexsha :: py_str
  message :: py_str
  author_name :: py_str
  committed_datetime :: py_str

text \<open>
  The repository object: \<open>iter_commits\<close> lists the commits of a path, newest first, and
  \<open>commit_tree\<close> gives the tree of a commit hash, a map from paths to the bytes of their
  blobs. A hash that names no commit has no tree (GitPython raises \<open>ValueError\<close>), and a
  path that is not in the tree has no blob (\<open>KeyError\<close>).
\<close>

record git_repo =
  iter_commits :: "py_str \<Rightarrow> commit list"
  commit_tree :: "py_str \<Rightarrow> (py_str \<Rightarrow> py_bytes option) option"

text \<open>
  The strict decoders of Python's codecs, \<open>None\<close> for \<open>UnicodeDecodeError\<close>, and the
  decoder of \<open>errors='replace'\<close>, which always answers. Latin-1 is written out below: it
  maps every byte to the code point of the same number.
\<close>

record codecs =
  utf_8 :: "py_bytes \<Rightarrow> py_str option"
  cp949 :: "py_bytes \<Rightarrow> py_str option"
  euc_kr :: "py_bytes \<Rightarrow> py_str option"
  utf_8_replace :: "py_bytes \<Rightarrow> py_str"

definition decode :: "codecs \<Rightarrow> py_str \<Rightarrow> py_bytes \<Rightarrow> py_str option" where
  "decode cd encoding raw_data =
     (if encoding = str ''utf-8'' then utf_8 cd raw_data
      else if encoding = str ''cp949'' then cp949 cd raw_data
      else if encoding = str ''euc-kr'' then euc_kr cd raw_data
      else if encoding = str ''latin-1'' then Some raw_data
      else None)"

definition encodings :: "py_str list" where
  "encodings = [str ''utf-8'', str ''cp949'', str ''euc-kr'', str ''latin-1'']"

text \<open>The loop of lines 34 to 40: the first encoding that decodes the bytes.\<close>

fun try_encodings :: "codecs \<Rightarrow> py_str list \<Rightarrow> py_bytes \<Rightarrow> py_str option" where
  "try_encodings cd [] raw_data = None"
| "try_encodings cd (encoding # rest) raw_data =
     (case decode cd encoding raw_data of
        Some content \<Rightarrow> Some content
      | None \<Rightarrow> try_encodings cd rest raw_data)"

definition get_file_content_at_commit ::
  "git_repo \<Rightarrow> codecs \<Rightarrow> py_str \<Rightarrow> py_str \<Rightarrow> py_str option" where
  "get_file_content_at_commit repo cd commit_hash file_path =
     (case commit_tree repo commit_hash of
        None \<Rightarrow> None
      | Some tree \<Rightarrow>
          (case tree file_path of
             None \<Rightarrow> None
           | Some raw_data \<Rightarrow>
               (case try_encodings cd encodings raw_data of
                  Some content \<Rightarrow> Some content
                | None \<Rightarrow> Some (utf_8_replace cd raw_data))))"

section \<open>FunctionHistoryTracker\<close>

record CommitChange =
  commit_hash :: py_str
  commit_message :: py_str
  author :: py_str
  date :: py_str
  code_before :: "py_str option"
  code_after :: "py_str option"
  highlighted_diff :: py_str

record tracker =
  git_manager :: git_repo
  decoders :: codecs
  parser :: captures
  dmp :: "py_str \<Rightarrow> py_str \<Rightarrow> diffs"

text \<open>\<open>x or ""\<close> for an optional text.\<close>

fun or_empty :: "py_str option \<Rightarrow> py_str" where
  "or_empty None = []"
| "or_empty (Some s) = s"

text \<open>
  The value that is compared for one commit (lines 200 to 206 and 236 to 239): the file
  content itself when no node name or no node type is given, otherwise the body of the
  node in it, and nothing when the file has no content at the commit. An exception of
  \<open>find_node_body\<close> leaves \<open>trace_history\<close>, which catches nothing.
\<close>

definition node_code ::
  "tracker \<Rightarrow> py_str option \<Rightarrow> py_str option \<Rightarrow> int option \<Rightarrow> int option \<Rightarrow>
   py_str option \<Rightarrow> exn + py_str option" where
  "node_code tr node_name node_type start_line end_line content =
     (case (node_type, node_name) of
        (Some ty, Some name) \<Rightarrow>
          (case content of
             None \<Rightarrow> Inr None
           | Some source_code \<Rightarrow>
               find_node_body (parser tr) source_code name ty start_line end_line)
      | _ \<Rightarrow> Inr content)"

definition content_code ::
  "tracker \<Rightarrow> py_str \<Rightarrow> py_str option \<Rightarrow> py_str option \<Rightarrow> int option \<Rightarrow> int option \<Rightarrow>
   commit \<Rightarrow> exn + py_str option" where
  "content_code tr file_path node_name node_type start_line end_line c =
     node_code tr node_name node_type start_line end_line
       (get_file_content_at_commit (git_manager tr) (decoders tr) (hexsha c) file_path)"

text \<open>The record built at lines 217 to 225 and 244 to 252.\<close>

definition change ::
  "tracker \<Rightarrow> commit \<Rightarrow> py_str option \<Rightarrow> py_str option \<Rightarrow> CommitChange" where
  "change tr c before after =
     \<lparr>commit_hash = take 7 (hexsha c),
      commit_message = strip (message c),
      author = author_name c,
      date = committed_datetime c,
      code_before = before,
      code_after = after,
      highlighted_diff = generate_highlighted_diff (dmp tr) (or_empty before) (or_empty after)\<rparr>"

text \<open>
  The loop of lines 188 to 228 over the adjacent commits, newest first; \<open>history\<close> is the
  list built so far. The value of the newer commit is computed before that of its
  parent.
\<close>

fun compare_commits ::
  "tracker \<Rightarrow> py_str \<Rightarrow> py_str option \<Rightarrow> py_str option \<Rightarrow> int option \<Rightarrow> int option \<Rightarrow>
   commit list \<Rightarrow> CommitChange list \<Rightarrow> exn + CommitChange list" where
  "compare_commits tr file_path node_name node_type start_line end_line
     (current_commit # parent_commit # older) history =
     (case content_code tr file_path node_name node_type start_line end_line current_commit of
        Inl e \<Rightarrow> Inl e
      | Inr after_code \<Rightarrow>
     (case content_code tr file_path node_name node_type start_line end_line parent_commit of
        Inl e \<Rightarrow> Inl e
      | Inr before_code \<Rightarrow>
          if after_code = None \<and> before_code = None then
            compare_commits tr file_path node_name node_type start_line end_line
              (parent_commit # older) history
          else if after_code \<noteq> before_code then
            compare_commits tr file_path node_name node_type start_line end_line
              (parent_commit # older)
              (history @ [change tr current_commit before_code after_code])
          else
            compare_commits tr file_path node_name node_type start_line end_line
              (parent_commit # older) history))"
| "compare_commits tr file_path node_name node_type start_line end_line commits history =
     Inr history"

definition trace_history ::
  "tracker \<Rightarrow> py_str \<Rightarrow> py_str option \<Rightarrow> py_str option \<Rightarrow> int option \<Rightarrow> int option \<Rightarrow>
   exn + CommitChange list" where
  "trace_history tr file_path node_name node_type start_line end_line =
     (let commits = iter_commits (git_manager tr) file_path in
      if commits = [] then Inr []
      else
        (case compare_commits tr file_path node_name node_type start_line end_line commits [] of
           Inl e \<Rightarrow> Inl e
         | Inr history \<Rightarrow>
             let first_commit = last commits in
             (case content_code tr file_path node_name node_type start_line end_line
                     first_commit of
                Inl e \<Rightarrow> Inl e
              | Inr first_code \<Rightarrow>
                  if first_code \<noteq> None \<and> \<not> list_ex (\<lambda>c. code_before c = first_code) history
                  then Inr (history @ [change tr first_commit None first_code])
                  else Inr history)))"

subsection \<open>The history in the words of the specification\<close>

text \<open>
  The reduced content of a commit: absent when the file has no content at the commit;
  the whole content in whole-file mode, which is the mode when no name or no kind of
  construct is given; and in construct mode the span of the construct in the content,
  as \<open>find_node_body\<close> finds it. The lookup of the span may raise.
\<close>

definition reduced ::
  "tracker \<Rightarrow> py_str \<Rightarrow> py_str option \<Rightarrow> py_str option \<Rightarrow> int option \<Rightarrow> int option \<Rightarrow>
   commit \<Rightarrow> exn + py_str option" where
  "reduced tr file_path node_name node_type start_line end_line c =
     (case get_file_content_at_commit (git_manager tr) (decoders tr) (hexsha c) file_path of
        None \<Rightarrow> Inr None
      | Some content \<Rightarrow>
          (case node_name of
             None \<Rightarrow> Inr (Some content)
           | Some name \<Rightarrow>
               (case node_type of
                  None \<Rightarrow> Inr (Some content)
                | Some kind \<Rightarrow>
                    find_node_body (parser tr) content name kind start_line end_line)))"

text \<open>The values of a list of results, or the first exception among them.\<close>

fun all_values :: "(exn + 'a) list \<Rightarrow> exn + 'a list" where
  "all_values [] = Inr []"
| "all_values (Inl e # rest) = Inl e"
| "all_values (Inr v # rest) =
     (case all_values rest of Inl e \<Rightarrow> Inl e | Inr vs \<Rightarrow> Inr (v # vs))"

definition reduced_values ::
  "tracker \<Rightarrow> py_str \<Rightarrow> py_str option \<Rightarrow> py_str option \<Rightarrow> int option \<Rightarrow> int option \<Rightarrow>
   commit list \<Rightarrow> exn + py_str option list" where
  "reduced_values tr file_path node_name node_type start_line end_line commits =
     all_values (map (reduced tr file_path node_name node_type start_line end_line) commits)"

text \<open>
  A record of change for a commit: the first seven characters of its hash, its message
  without the white space around it, its author and date, the two texts, and the diff
  rendered between them, an absent text taken as empty.
\<close>

definition change_record ::
  "(py_str \<Rightarrow> py_str \<Rightarrow> diffs) \<Rightarrow> commit \<Rightarrow> py_str option \<Rightarrow> py_str option \<Rightarrow> CommitChange" where
  "change_record core c before after =
     \<lparr>commit_hash = take 7 (hexsha c),
      commit_message = strip (message c),
      author = author_name c,
      date = committed_datetime c,
      code_before = before,
      code_after = after,
      highlighted_diff =
        generate_highlighted_diff core (case before of None \<Rightarrow> [] | Some t \<Rightarrow> t)
          (case after of None \<Rightarrow> [] | Some t \<Rightarrow> t)\<rparr>"

text \<open>
  The records of the adjacent pairs, for commits given newest first with their reduced
  contents: a pair of a commit and its parent gives one record, for the commit, when the
  two reduced contents are not both absent and are unequal, and no record otherwise.
\<close>

definition pair_records ::
  "(py_str \<Rightarrow> py_str \<Rightarrow> diffs) \<Rightarrow> (commit \<times> py_str option) list \<Rightarrow> CommitChange list" where
  "pair_records core commits =
     concat (map (\<lambda>((current, after), (parent, before)).
        if \<not> (after = None \<and> before = None) \<and> after \<noteq> before
        then [change_record core current before after] else [])
       (zip commits (tl commits)))"

text \<open>
  The record of creation: one record for the oldest commit, with no text before, when
  the reduced content of that commit is not absent and is not the text before of a
  record of the pairs; no record otherwise.
\<close>

definition creation_records ::
  "(py_str \<Rightarrow> py_str \<Rightarrow> diffs) \<Rightarrow> (commit \<times> py_str option) list \<Rightarrow> CommitChange list" where
  "creation_records core commits =
     (case commits of
        [] \<Rightarrow> []
      | _ \<Rightarrow>
          (case snd (last commits) of
             None \<Rightarrow> []
           | Some first_code \<Rightarrow>
               if Some first_code \<in> set (map code_before (pair_records core commits)) then []
               else [change_record core (fst (last commits)) None (Some first_code)]))"


section \<open>Paths\<close>

text \<open>
  \<open>s.split(sep)\<close> for a one-character separator, and the decimal numeral of a number.
\<close>

fun split_on :: "nat \<Rightarrow> py_str \<Rightarrow> py_str list" where
  "split_on sep [] = [[]]"
| "split_on sep (c # cs) =
     (if c = sep then [] # split_on sep cs
      else (case split_on sep cs of
              [] \<Rightarrow> [[c]]
            | x # xs \<Rightarrow> (c # x) # xs))"

fun digits :: "nat \<Rightarrow> py_str" where
  "digits n = (if n < 10 then [48 + n] else digits (n div 10) @ [48 + n mod 10])"

text \<open>
  The part of Python's \<open>pathlib\<close> (POSIX flavour) that the services use. A path is parsed
  into a root and its components, without the empty components and the components
  \<open>.\<close>; \<open>path_str\<close> prints it again. The suffix of a name starts at its last dot, unless
  that dot is the first or the last character of the name.
\<close>

definition path_root :: "py_str \<Rightarrow> py_str" where
  "path_root p =
     (if take 2 p = str ''//'' \<and> take 3 p \<noteq> str ''///'' then str ''//''
      else if take 1 p = str ''/'' then str ''/''
      else [])"

definition path_parts :: "py_str \<Rightarrow> py_str list" where
  "path_parts p = filter (\<lambda>x. x \<noteq> [] \<and> x \<noteq> str ''.'') (split_on 47 p)"

fun join_parts :: "py_str list \<Rightarrow> py_str" where
  "join_parts [] = []"
| "join_parts [x] = x"
| "join_parts (x # y # rest) = x @ str ''/'' @ join_parts (y # rest)"

definition path_str :: "py_str \<Rightarrow> py_str list \<Rightarrow> py_str" where
  "path_str root parts = (if root = [] \<and> parts = [] then str ''.'' else root @ join_parts parts)"

definition path_join :: "py_str \<Rightarrow> py_str \<Rightarrow> py_str" where
  "path_join a b =
     (if path_root b \<noteq> [] then path_str (path_root b) (path_parts b)
      else path_str (path_root a) (path_parts a @ path_parts b))"

definition suffix :: "py_str \<Rightarrow> py_str" where
  "suffix name =
     (if 46 \<notin> set name then []
      else let i = length name - length (takeWhile (\<lambda>c. c \<noteq> 46) (rev name)) - 1
           in if 0 < i \<and> i < length name - 1 then drop i name else [])"

section \<open>GitService\<close>

text \<open>
  \<open>Path(p).with_suffix(".json")\<close>, printed: a path without a name raises \<open>ValueError\<close>.
\<close>

definition with_suffix_json :: "py_str \<Rightarrow> exn + py_str" where
  "with_suffix_json p =
     (let parts = path_parts p in
      if parts = [] then Inl (ValueError (str ''path has an empty name''))
      else
        let name = last parts;
            old_suffix = suffix name;
            new_name =
              (if old_suffix = [] then name @ str ''.json''
               else take (length name - length old_suffix) name @ str ''.json'')
        in Inr (path_str (path_root p) (butlast parts @ [new_name])))"

text \<open>
  \<open>_format_source_file\<close>: the list comprehension stops at the first path that raises.
\<close>

fun format_source_file :: "py_str list \<Rightarrow> exn + py_str list" where
  "format_source_file [] = Inr []"
| "format_source_file (p # ps) =
     (case with_suffix_json p of
        Inl e \<Rightarrow> Inl e
      | Inr q \<Rightarrow>
          (case format_source_file ps of
             Inl e \<Rightarrow> Inl e
           | Inr qs \<Rightarrow> Inr (q # qs)))"

text \<open>
  What \<open>subprocess.run\<close> can do: complete with a return code, standard output and
  standard error, run into the timeout, or fail to start.
\<close>

datatype proc_outcome = Completed int py_str py_str | TimeoutExpired | OSError py_str

text \<open>The calls of the indexing services, as the pipeline makes them.\<close>

datatype call =
    Delete_entities py_str "py_str list"
  | Parse_repository py_str bool
  | Embed_documents py_str py_str py_str

text \<open>
  The state the worker acts on. \<open>ext\<close> is everything outside the program: the file
  system, the remote, the vector index. \<open>git_log\<close> lists the git commands that have been
  run and \<open>calls\<close> the calls of the indexing services, both oldest first. The last three
  fields are the row of the repository in the database.
\<close>

record 'x world =
  ext :: 'x
  git_log :: "py_str list list"
  calls :: "call list"
  repo_status :: py_str
  repo_vectordb_status :: py_str
  repo_file_count :: int

record delete_result =
  delete_success :: bool
  delete_error :: "py_str option"

record parse_result =
  parse_success :: bool
  total_files :: int
  parse_error :: "py_str option"

record embed_result =
  embed_success :: bool
  inserted_count :: int

text \<open>
  What the worker calls outside itself: the subprocess that runs a command in a working
  directory, the file system (\<open>repo_exists\<close>, \<open>get_repo_path\<close>, \<open>path_exists\<close>), and the
  services of the vector index and of the parser, each of which returns its result or
  raises.
\<close>

record 'x services =
  subprocess_run :: "py_str list \<Rightarrow> py_str \<Rightarrow> 'x \<Rightarrow> proc_outcome \<times> 'x"
  repo_exists :: "py_str \<Rightarrow> 'x \<Rightarrow> bool"
  get_repo_path :: "py_str \<Rightarrow> py_str"
  path_exists :: "py_str \<Rightarrow> 'x \<Rightarrow> bool"
  delete_entities :: "py_str \<Rightarrow> py_str list \<Rightarrow> 'x \<Rightarrow> (exn + delete_result) \<times> 'x"
  parse_repository :: "py_str \<Rightarrow> bool \<Rightarrow> 'x \<Rightarrow> (exn + parse_result) \<times> 'x"
  embed_documents :: "py_str \<Rightarrow> py_str \<Rightarrow> py_str \<Rightarrow> 'x \<Rightarrow> (exn + embed_result) \<times> 'x"

text \<open>
  \<open>GitCommandRunner.run\<close> with its default timeout of 300 seconds: a return code other
  than zero raises \<open>GitCommandError\<close> with the standard error.
\<close>

definition run ::
  "'x services \<Rightarrow> py_str list \<Rightarrow> py_str \<Rightarrow> 'x world \<Rightarrow> (exn + py_str \<times> py_str) \<times> 'x world" where
  "run sv command cwd w =
     (case subprocess_run sv command cwd (ext w) of
        (outcome, x) \<Rightarrow>
          let w' = w\<lparr>ext := x, git_log := git_log w @ [command]\<rparr> in
          (case outcome of
             Completed returncode out err \<Rightarrow>
               if returncode \<noteq> 0 then (Inl (GitCommandError err), w') else (Inr (out, err), w')
           | TimeoutExpired \<Rightarrow>
               (Inl (GitTimeoutError (str ''Command timed out after 300 seconds'')), w')
           | OSError m \<Rightarrow> (Inl (GitCommandError m), w')))"

record pull_result =
  pull_success :: bool
  pull_repo_name :: py_str
  pull_repo_path :: py_str
  pull_message :: "py_str option"
  pull_error :: "py_str option"

definition pull_failed :: "py_str \<Rightarrow> py_str \<Rightarrow> pull_result" where
  "pull_failed repo_name e =
     \<lparr>pull_success = False, pull_repo_name = repo_name, pull_repo_path = [],
      pull_message = None, pull_error = Some e\<rparr>"

definition checkout_main :: "py_str list" where
  "checkout_main = [str ''git'', str ''checkout'', str ''main'']"

definition git_pull :: "py_str list" where
  "git_pull = [str ''git'', str ''pull'']"

definition not_found :: "py_str \<Rightarrow> py_str" where
  "not_found repo_name = str ''Repository '' @ repo_name @ str '' not found''"

definition pull_repository ::
  "'x services \<Rightarrow> py_str \<Rightarrow> 'x world \<Rightarrow> pull_result \<times> 'x world" where
  "pull_repository sv repo_name w =
     (if \<not> repo_exists sv repo_name (ext w) then (pull_failed repo_name (not_found repo_name), w)
      else
        let repo_path = get_repo_path sv repo_name in
        (case run sv checkout_main repo_path w of
           (Inl e, w1) \<Rightarrow> (pull_failed repo_name (exn_text e), w1)
         | (Inr _, w1) \<Rightarrow>
             (case run sv git_pull repo_path w1 of
                (Inl e, w2) \<Rightarrow> (pull_failed repo_name (exn_text e), w2)
              | (Inr (out, err), w2) \<Rightarrow>
                  (\<lparr>pull_success = True, pull_repo_name = repo_name, pull_repo_path = repo_path,
                    pull_message = Some out, pull_error = None\<rparr>, w2))))"

record diff_result =
  diff_success :: bool
  files :: "py_str list"
  diff_message :: "py_str option"
  diff_error :: "py_str option"

definition diff_failed :: "py_str \<Rightarrow> diff_result" where
  "diff_failed e =
     \<lparr>diff_success = False, files = [], diff_message = None, diff_error = Some e\<rparr>"

definition git_fetch :: "py_str list" where
  "git_fetch = [str ''git'', str ''fetch'']"

definition git_diff :: "py_str list" where
  "git_diff = [str ''git'', str ''diff'', str ''--name-only'', str ''HEAD'', str ''origin/main'']"

text \<open>Line 386 of \<open>service.py\<close>: the lines of the stripped output, none when it is empty.\<close>

definition raw_changed_files :: "py_str \<Rightarrow> py_str list" where
  "raw_changed_files stdout = (if strip stdout \<noteq> [] then split_on 10 (strip stdout) else [])"

text \<open>
  \<open>diff_files\<close> catches the errors of the repository check and of git; a \<open>ValueError\<close> of
  \<open>_format_source_file\<close> leaves it.
\<close>

definition diff_files ::
  "'x services \<Rightarrow> py_str \<Rightarrow> 'x world \<Rightarrow> (exn + diff_result) \<times> 'x world" where
  "diff_files sv repo_name w =
     (if \<not> repo_exists sv repo_name (ext w) then (Inr (diff_failed (not_found repo_name)), w)
      else
        let repo_path = get_repo_path sv repo_name in
        (case run sv git_fetch repo_path w of
           (Inl e, w1) \<Rightarrow> (Inr (diff_failed (exn_text e)), w1)
         | (Inr _, w1) \<Rightarrow>
             (case run sv git_diff repo_path w1 of
                (Inl e, w2) \<Rightarrow> (Inr (diff_failed (exn_text e)), w2)
              | (Inr (stdout, err), w2) \<Rightarrow>
                  (case format_source_file (raw_changed_files stdout) of
                     Inl e \<Rightarrow> (Inl e, w2)
                   | Inr formatted_files \<Rightarrow>
                       (Inr \<lparr>diff_success = True, files = formatted_files,
                             diff_message =
                               Some (str ''Found '' @ digits (length formatted_files) @
                                     str '' changed files between local and remote.''),
                             diff_error = None\<rparr>, w2)))))"


section \<open>The update pipeline\<close>

text \<open>
  The dictionary that \<open>update_repository_pipeline\<close> returns: with \<open>success\<close> true it
  carries the counts, with \<open>success\<close> false the step and the error text.
\<close>

datatype pipeline_result =
    Succeeded (res_file_count: int) (res_deleted_count: int) (res_embedded_count: int)
  | Failed (res_step: py_str) (res_error: py_str)

text \<open>
  Modelled from the spec: \<open>RepositoryService\<close> is not among the sources.
  \<open>update_repository_status\<close> stores the status and the vector index status of the
  repository, and \<open>update_file_count\<close> its number of files.
\<close>

definition update_repository_status :: "'x world \<Rightarrow> py_str \<Rightarrow> py_str \<Rightarrow> 'x world" where
  "update_repository_status w status vectordb_status =
     w\<lparr>repo_status := status, repo_vectordb_status := vectordb_status\<rparr>"

definition update_file_count :: "'x world \<Rightarrow> int \<Rightarrow> 'x world" where
  "update_file_count w n = w\<lparr>repo_file_count := n\<rparr>"

text \<open>The text of an optional value inside an f-string.\<close>

fun fmt :: "py_str option \<Rightarrow> py_str" where
  "fmt None = str ''None''"
| "fmt (Some s) = s"

definition json_file_path :: "py_str \<Rightarrow> py_str \<Rightarrow> py_str" where
  "json_file_path repo_name json_filename =
     path_join (str ''parsed_repository/'' @ repo_name) json_filename"

text \<open>
  The loop of lines 802 to 818 over the changed files: a file without a parsed JSON file
  is skipped, and the first embedding that reports a failure ends the loop with the name
  of its file.
\<close>

fun embed_changed ::
  "'x services \<Rightarrow> py_str \<Rightarrow> py_str \<Rightarrow> py_str \<Rightarrow> py_str list \<Rightarrow> int \<Rightarrow> 'x world \<Rightarrow>
   (exn + py_str + int) \<times> 'x world" where
  "embed_changed sv repo_name collection_name model_key [] n w = (Inr (Inr n), w)"
| "embed_changed sv repo_name collection_name model_key (json_filename # rest) n w =
     (let json_path = json_file_path repo_name json_filename in
      if \<not> path_exists sv json_path (ext w) then
        embed_changed sv repo_name collection_name model_key rest n w
      else
        (case embed_documents sv json_path collection_name model_key (ext w) of
           (r, x) \<Rightarrow>
             let w' = w\<lparr>ext := x,
                         calls := calls w @ [Embed_documents json_path collection_name model_key]\<rparr>
             in (case r of
                   Inl e \<Rightarrow> (Inl e, w')
                 | Inr embed_result \<Rightarrow>
                     if \<not> embed_success embed_result then (Inr (Inl json_filename), w')
                     else embed_changed sv repo_name collection_name model_key rest
                            (n + inserted_count embed_result) w')))"

text \<open>
  The body of the \<open>try\<close> statement is a sequence of five stages. A stage either ends
  the body, with the exception it raises or with the result it returns (\<open>Inl\<close>), or
  hands a value to the stages after it (\<open>Inr\<close>).
\<close>

type_synonym 'a stage = "(exn + pipeline_result) + 'a"

text \<open>Step 1, lines 749 to 756: the files to update.\<close>

definition detecting_changes ::
  "'x services \<Rightarrow> py_str \<Rightarrow> 'x world \<Rightarrow> py_str list stage \<times> 'x world" where
  "detecting_changes sv repo_name w =
     (case diff_files sv repo_name w of
        (Inl e, w') \<Rightarrow> (Inl (Inl e), w')
      | (Inr diff_result, w') \<Rightarrow>
          if \<not> diff_success diff_result then
            (Inl (Inr (Failed (str ''diff'')
                         (str ''Failed to get diff: '' @ fmt (diff_error diff_result)))),
             update_repository_status w' (str ''active'') (str ''error''))
          else (Inr (files diff_result), w'))"

text \<open>Step 2, lines 759 to 764.\<close>

definition pulling :: "'x services \<Rightarrow> py_str \<Rightarrow> 'x world \<Rightarrow> unit stage \<times> 'x world" where
  "pulling sv repo_name w =
     (case pull_repository sv repo_name w of
        (pull_result, w') \<Rightarrow>
          if \<not> pull_success pull_result then
            (Inl (Inr (Failed (str ''pull'')
                         (str ''Git pull failed: '' @ fmt (pull_error pull_result)))),
             update_repository_status w' (str ''error'') (str ''error''))
          else (Inr (), w'))"

text \<open>Step 3, lines 769 to 784: the number of files whose entities were deleted.\<close>

definition invalidating ::
  "'x services \<Rightarrow> py_str \<Rightarrow> py_str list \<Rightarrow> 'x world \<Rightarrow> int stage \<times> 'x world" where
  "invalidating sv collection_name files_to_update w =
     (if files_to_update \<noteq> [] then
        (case delete_entities sv collection_name files_to_update (ext w) of
           (r, x) \<Rightarrow>
             let w' = w\<lparr>ext := x,
                         calls := calls w @ [Delete_entities collection_name files_to_update]\<rparr>
             in (case r of
                   Inl e \<Rightarrow> (Inl (Inl e), w')
                 | Inr delete_result \<Rightarrow>
                     if \<not> delete_success delete_result then
                       (Inl (Inr (Failed (str ''delete_entities'')
                                    (str ''Failed to delete entities: '' @
                                     fmt (delete_error delete_result)))),
                        update_repository_status w' (str ''active'') (str ''error''))
                     else (Inr (int (length files_to_update)), w')))
      else (Inr 0, w))"

text \<open>
  Step 4, lines 786 to 794: the number of parsed files, which is stored. The result of
  \<open>parse_repository\<close> has no key \<open>message\<close>, so the error text ends in \<open>None\<close>.
\<close>

definition reparsing ::
  "'x services \<Rightarrow> py_str \<Rightarrow> bool \<Rightarrow> 'x world \<Rightarrow> int stage \<times> 'x world" where
  "reparsing sv repo_name save_json w =
     (case parse_repository sv repo_name save_json (ext w) of
        (r, x) \<Rightarrow>
          let w' = w\<lparr>ext := x, calls := calls w @ [Parse_repository repo_name save_json]\<rparr> in
          (case r of
             Inl e \<Rightarrow> (Inl (Inl e), w')
           | Inr parse_result \<Rightarrow>
               if \<not> parse_success parse_result then
                 (Inl (Inr (Failed (str ''parse'') (str ''Parsing failed: '' @ fmt None))),
                  update_repository_status w' (str ''error'') (str ''error''))
               else (Inr (total_files parse_result),
                     update_file_count w' (total_files parse_result))))"

text \<open>Step 5, lines 796 to 823: the number of embedded chunks.\<close>

definition embedding ::
  "'x services \<Rightarrow> py_str \<Rightarrow> py_str \<Rightarrow> py_str \<Rightarrow> py_str list \<Rightarrow> 'x world \<Rightarrow>
   int stage \<times> 'x world" where
  "embedding sv repo_name collection_name model_key files_to_update w =
     (if files_to_update \<noteq> [] then
        (case embed_changed sv repo_name collection_name model_key files_to_update 0 w of
           (Inl e, w') \<Rightarrow> (Inl (Inl e), w')
         | (Inr (Inl json_filename), w') \<Rightarrow>
             (Inl (Inr (Failed (str ''embed'') (str ''Embedding failed for '' @ json_filename))),
              update_repository_status w' (str ''active'') (str ''error''))
         | (Inr (Inr total_embedded_count), w') \<Rightarrow> (Inr total_embedded_count, w'))
      else (Inr 0, w))"

text \<open>The body of the \<open>try\<close> statement (lines 745 to 837).\<close>

definition pipeline_body ::
  "'x services \<Rightarrow> py_str \<Rightarrow> py_str \<Rightarrow> bool \<Rightarrow> py_str \<Rightarrow> 'x world \<Rightarrow>
   (exn + pipeline_result) \<times> 'x world" where
  "pipeline_body sv repo_name collection_name save_json model_key w =
     (case detecting_changes sv repo_name
             (update_repository_status w (str ''updating'') (str ''pending'')) of
        (Inl ended, w1) \<Rightarrow> (ended, w1)
      | (Inr files_to_update, w1) \<Rightarrow>
     (case pulling sv repo_name w1 of
        (Inl ended, w2) \<Rightarrow> (ended, w2)
      | (Inr _, w2) \<Rightarrow>
     (case invalidating sv collection_name files_to_update
             (update_repository_status w2 (str ''updating'') (str ''updating'')) of
        (Inl ended, w3) \<Rightarrow> (ended, w3)
      | (Inr deleted_count, w3) \<Rightarrow>
     (case reparsing sv repo_name save_json w3 of
        (Inl ended, w4) \<Rightarrow> (ended, w4)
      | (Inr file_count, w4) \<Rightarrow>
     (case embedding sv repo_name collection_name model_key files_to_update w4 of
        (Inl ended, w5) \<Rightarrow> (ended, w5)
      | (Inr total_embedded_count, w5) \<Rightarrow>
          (Inr (Succeeded file_count deleted_count total_embedded_count),
           update_repository_status w5 (str ''active'') (str ''active'')))))))"

text \<open>
  The pipeline with its handler of every exception (lines 839 to 847). \<open>repo_id\<close> names
  the row of the database, which here is the row of the state.
\<close>

definition update_repository_pipeline ::
  "'x services \<Rightarrow> py_str \<Rightarrow> py_str \<Rightarrow> py_str \<Rightarrow> bool \<Rightarrow> py_str \<Rightarrow> 'x world \<Rightarrow>
   pipeline_result \<times> 'x world" where
  "update_repository_pipeline sv repo_id repo_name collection_name save_json model_key w =
     (case pipeline_body sv repo_name collection_name save_json model_key w of
        (Inl e, w') \<Rightarrow>
          (Failed (str ''unknown'') (exn_text e),
           update_repository_status w' (str ''error'') (str ''error''))
      | (Inr result, w') \<Rightarrow> (result, w'))"

section \<open>The sync endpoint\<close>

text \<open>
  The row of a repository as the endpoint reads it, and the task it sends to the worker.
\<close>

record repository =
  name :: py_str
  status :: py_str

record task =
  task_name :: py_str
  task_repo_id :: py_str
  task_repo_name :: py_str
  task_collection_name :: py_str
  task_save_json :: bool
  task_model_key :: py_str

text \<open>
  \<open>RepositoryService\<close> and the Celery application are not among the sources; what the
  endpoint asks of them is the state of the backend: the rows of the repositories by id
  (\<open>get_repository\<close>), the users with the permission \<open>admin\<close> on a repository
  (\<open>check_user_permission\<close>), the tasks sent to the worker and not yet taken by
  it, and the error text with which \<open>send_task\<close> raises when the broker does not accept
  a task.
\<close>

record backend =
  repositories :: "py_str \<Rightarrow> repository option"
  admins :: "(py_str \<times> py_str) set"
  queue :: "task list"
  broker_failure :: "py_str option"

datatype response = HTTPException nat py_str | Started py_str py_str

text \<open>\<open>str.replace\<close> of one character by another.\<close>

definition replace_char :: "nat \<Rightarrow> nat \<Rightarrow> py_str \<Rightarrow> py_str" where
  "replace_char a b s = map (\<lambda>c. if c = a then b else c) s"

definition busy :: "py_str list" where
  "busy = [str ''syncing'', str ''updating'', str ''pending'']"

text \<open>A text between single quotes, as \<open>f"'{s}'"\<close> writes it.\<close>

definition quoted :: "py_str \<Rightarrow> py_str" where
  "quoted s = [39] @ s @ [39]"

text \<open>
  \<open>sync_repository\<close> for the repository \<open>repo_id\<close> and the user \<open>user_id\<close>; the id of
  the sent task is not modelled.
\<close>

definition sync_repository :: "py_str \<Rightarrow> py_str \<Rightarrow> backend \<Rightarrow> response \<times> backend" where
  "sync_repository repo_id user_id st =
     (if (repo_id, user_id) \<notin> admins st then
        (HTTPException 403 (str ''You don't have permission to sync this repository''), st)
      else
        (case repositories st repo_id of
           None \<Rightarrow> (HTTPException 404 (str ''Repository not found''), st)
         | Some repository \<Rightarrow>
             if status repository \<in> set busy then
               (HTTPException 400
                  (str ''Repository is already being processed (status: '' @ status repository @
                   str '')''), st)
             else
               (case broker_failure st of
                  Some task_error \<Rightarrow>
                    (HTTPException 500 (str ''Failed to start sync task: '' @ task_error), st)
                | None \<Rightarrow>
               (Started (str ''Repository sync started for '' @ quoted (name repository)) repo_id,
                st\<lparr>queue := queue st @
                   [\<lparr>task_name = str ''rag_worker.tasks.update_repository_pipeline'',
                     task_repo_id = repo_id,
                     task_repo_name = name repository,
                     task_collection_name = str ''repo_'' @ replace_char 45 95 repo_id,
                     task_save_json = True,
                     task_model_key = str ''text-embedding-3-small''\<rparr>]\<rparr>))))"

text \<open>The syncs of a repository that are in flight: its tasks in the queue.\<close>

definition in_flight :: "py_str \<Rightarrow> backend \<Rightarrow> nat" where
  "in_flight repo_id st = length (filter (\<lambda>t. task_repo_id t = repo_id) (queue st))"


section \<open>A small repository\<close>

text \<open>
  Three commits and three files. The first commit creates the files: \<open>a.py\<close> and
  \<open>c.py\<close> hold an assignment, \<open>b.py\<close> defines the function \<open>foo\<close>. The second commit
  puts \<open>foo\<close> into \<open>a.py\<close> and adds a line to \<open>b.py\<close>. The third commit takes
  \<open>foo\<close> out of \<open>a.py\<close> again and deletes \<open>c.py\<close>.
\<close>

definition created :: commit where
  "created = \<lparr>hexsha = str ''1111111aaaa'', message = str ''create the files\<newline>'',
     author_name = str ''kim'', committed_datetime = str ''2025-01-01 10:00:00''\<rparr>"

definition modified :: commit where
  "modified = \<lparr>hexsha = str ''2222222bbbb'', message = str ''add foo\<newline>'',
     author_name = str ''kim'', committed_datetime = str ''2025-01-02 10:00:00''\<rparr>"

definition deleted :: commit where
  "deleted = \<lparr>hexsha = str ''3333333cccc'', message = str ''remove foo\<newline>'',
     author_name = str ''lee'', committed_datetime = str ''2025-01-03 10:00:00''\<rparr>"

definition assignment :: py_str where
  "assignment = str ''x = 1\<newline>''"

definition foo_source :: py_str where
  "foo_source = str ''def foo():\<newline>    return 1\<newline>''"

definition foo_body :: py_str where
  "foo_body = str ''def foo():\<newline>    return 1''"

text \<open>
  A parser for these files. A query with a double quote inside the name has more than
  the two double quotes of its template and does not compile. The query for the function
  \<open>foo\<close> captures the definition and its name in the two sources that define \<open>foo\<close>,
  and no query captures anything else.
\<close>

definition small_parser :: captures where
  "small_parser query source =
     (if length (filter (\<lambda>c. c = 34) query) \<noteq> 2
      then Inl (Exception (str ''Invalid syntax''))
      else if query = fst function_query @ str ''foo'' @ snd function_query
              \<and> (source = foo_source \<or> source = foo_source @ str ''x = 2\<newline>'')
      then Inr [(str ''function_definition'', foo_body), (str ''identifier'', str ''foo'')]
      else Inr [])"

text \<open>
  The files are stored in UTF-8. In the histories below one text of every compared pair
  is absent or the two texts are equal, so the search of the diff library is not
  reached.
\<close>

definition small_repository :: tracker where
  "small_repository =
     \<lparr>git_manager =
        \<lparr>iter_commits = (\<lambda>p.
           if p = str ''a.py'' then [deleted, modified, created]
           else if p = str ''b.py'' then [modified, created]
           else if p = str ''c.py'' then [deleted, created]
           else []),
         commit_tree = (\<lambda>h.
           if h = hexsha created then Some (\<lambda>p.
             if p = str ''a.py'' then Some assignment
             else if p = str ''b.py'' then Some foo_source
             else if p = str ''c.py'' then Some assignment
             else None)
           else if h = hexsha modified then Some (\<lambda>p.
             if p = str ''a.py'' then Some foo_source
             else if p = str ''b.py'' then Some (foo_source @ str ''x = 2\<newline>'')
             else if p = str ''c.py'' then Some assignment
             else None)
           else if h = hexsha deleted then Some (\<lambda>p.
             if p = str ''a.py'' then Some assignment
             else if p = str ''b.py'' then Some (foo_source @ str ''x = 2\<newline>'')
             else None)
           else None)\<rparr>,
      decoders =
        \<lparr>utf_8 = Some, cp949 = (\<lambda>b. None), euc_kr = (\<lambda>b. None), utf_8_replace = (\<lambda>b. b)\<rparr>,
      parser = small_parser,
      dmp = (\<lambda>a b. [])\<rparr>"

section \<open>Example services\<close>

text \<open>
  Services for concrete runs. The repository exists, every parsed file exists, and the
  services of the index and of the parser answer with the given results. \<open>git_prints out\<close>
  is a git whose commands all succeed and whose \<open>diff\<close> prints \<open>out\<close>;
  \<open>git_without_main out\<close> is the same git in a repository with no branch \<open>main\<close>, and
  \<open>git_offline\<close> is a git that cannot reach the remote.
\<close>

definition git_prints :: "py_str \<Rightarrow> py_str list \<Rightarrow> proc_outcome" where
  "git_prints out command =
     (if command = git_diff then Completed 0 out [] else Completed 0 [] [])"

definition git_without_main :: "py_str \<Rightarrow> py_str list \<Rightarrow> proc_outcome" where
  "git_without_main out command =
     (if command = checkout_main
      then Completed 1 []
             (str ''error: pathspec 'main' did not match any file(s) known to git'')
      else git_prints out command)"

definition git_offline :: "py_str list \<Rightarrow> proc_outcome" where
  "git_offline command = Completed 128 [] (str ''fatal: unable to access the remote'')"

definition example_services ::
  "(py_str list \<Rightarrow> proc_outcome) \<Rightarrow> (exn + delete_result) \<Rightarrow> (exn + parse_result) \<Rightarrow>
   (exn + embed_result) \<Rightarrow> unit services" where
  "example_services git del par emb =
     \<lparr>subprocess_run = (\<lambda>command cwd x. (git command, x)),
      repo_exists = (\<lambda>repo_name x. True),
      get_repo_path = (\<lambda>repo_name. str ''repository/'' @ repo_name),
      path_exists = (\<lambda>p x. True),
      delete_entities = (\<lambda>collection_name source_files x. (del, x)),
      parse_repository = (\<lambda>repo_name save_json x. (par, x)),
      embed_documents = (\<lambda>json_path collection_name model_key x. (emb, x))\<rparr>"

definition unused :: "exn + 'a" where
  "unused = Inl (Exception [])"

definition active_world :: "unit world" where
  "active_world =
     \<lparr>ext = (), git_log = [], calls = [], repo_status = str ''active'',
      repo_vectordb_status = str ''active'', repo_file_count = 3\<rparr>"

text \<open>
  A backend with two repositories of one administrator: the first is active, the second
  is being updated.
\<close>

definition two_repositories :: backend where
  "two_repositories =
     \<lparr>repositories = (\<lambda>repo_id.
        if repo_id = str ''r-1'' then Some \<lparr>name = str ''demo'', status = str ''active''\<rparr>
        else if repo_id = str ''r-2''
        then Some \<lparr>name = str ''other'', status = str ''updating''\<rparr>
        else None),
      admins = {(str ''r-1'', str ''u-1''), (str ''r-2'', str ''u-1'')},
      queue = [],
      broker_failure = None\<rparr>"

section \<open>Reading a rendered diff\<close>

lemma concat_splitlines_from: "concat (splitlines_from cur s) = cur @ s"
  by (induction cur s rule: splitlines_from.induct) (auto split: list.splits)

lemma concat_splitlines: "concat (splitlines s) = s"
  by (simp add: splitlines_def concat_splitlines_from)
















text \<open>
  When a chunk that is not the last has no line break at its end, its last line and the
  first line of the next chunk are one line of the rendered text. For the texts \<open>a\<close> and
  \<open>b\<close>, where the library reports a deletion and an insertion, the rendered text is the
  one line \<open>- a+ b\<close>, and no line of it is marked as an insertion.
\<close>

lemma render_unterminated_chunk:
  "generate_highlighted_diff (\<lambda>a b. [(DIFF_DELETE, a), (DIFF_INSERT, b)]) (str ''a'') (str ''b'')
     = str ''- a+ b''
   \<and> marked_text (str ''+ '')
       (generate_highlighted_diff (\<lambda>a b. [(DIFF_DELETE, a), (DIFF_INSERT, b)]) (str ''a'')
         (str ''b'')) = []
   \<and> marked_text (str ''- '')
       (generate_highlighted_diff (\<lambda>a b. [(DIFF_DELETE, a), (DIFF_INSERT, b)]) (str ''a'')
         (str ''b'')) = str ''a+ b''"
  by (simp add: marked_text_def generate_highlighted_diff_def dmp_line_diff_def str_def
      splitlines_def is_linebreak_def strip_def is_space_def)

section \<open>Unsupported node types\<close>

text \<open>
  C7, as stated, fails: for the node type \<open>method\<close>, which is not a key of \<open>QUERIES\<close>,
  \<open>find_node_body\<close> returns \<open>None\<close> and raises nothing, as it does for a function that
  the source does not define (the parser finds no capture in \<open>x = 1\<close>).
\<close>

theorem find_node_body_unsupported_counterexample:
  "find_node_body (\<lambda>query source. Inr []) (str ''x = 1'') (str ''f'') (str ''method'') None None
       = Inr None
   \<and> find_node_body (\<lambda>query source. Inr []) (str ''x = 1'') (str ''f'') (str ''function'') None
       None = Inr None"
  by (simp add: find_node_body_def QUERIES_def str_def function_query_def)

text \<open>
  C7, amended: for every source text, \<open>find_node_body\<close> with a node type outside
  \<open>function\<close>, \<open>async_function\<close>, \<open>class\<close>, \<open>module\<close> and \<open>script\<close> returns the absent
  result \<open>None\<close> and raises nothing, whatever the parser, the name and the line range
  are: the value that also stands for a construct that is not present.
\<close>

theorem find_node_body_unsupported:
  assumes "node_type \<notin> {str ''function'', str ''async_function'', str ''class'', str ''module'',
             str ''script''}"
  shows "find_node_body ts source_code node_name node_type start_line end_line = Inr None"
  using assms by (simp add: find_node_body_def QUERIES_def)

theorem find_node_body_unsupported_witness:
  "str ''method'' \<notin> {str ''function'', str ''async_function'', str ''class'', str ''module'',
       str ''script''}
   \<and> find_node_body (\<lambda>query source. Inr [(str ''function_definition'', str ''def f(): pass'')])
       (str ''def f(): pass'') (str ''f'') (str ''method'') (Some 1) (Some 1) = Inr None"
proof -
  have h: "str ''method'' \<notin> {str ''function'', str ''async_function'', str ''class'',
      str ''module'', str ''script''}"
    by (simp add: str_def)
  show ?thesis
    using h find_node_body_unsupported [OF h] by simp
qed


section \<open>Content at a commit\<close>

lemma try_encodings_latin_1:
  "try_encodings cd encodings raw_data =
     Some (case utf_8 cd raw_data of
             Some s \<Rightarrow> s
           | None \<Rightarrow>
               (case cp949 cd raw_data of
                  Some s \<Rightarrow> s
                | None \<Rightarrow> (case euc_kr cd raw_data of Some s \<Rightarrow> s | None \<Rightarrow> raw_data)))"
  by (simp add: encodings_def decode_def str_def split: option.splits)

text \<open>
  C8, as stated, fails: the last decoding is not the UTF-8 decoding that replaces invalid
  bytes. None of UTF-8, CP949 and EUC-KR decodes the two bytes 78 FF; the result is their
  Latin-1 text, the code points 120 and 255, and not the text of the replacing decoder,
  the code points 120 and 65533.
\<close>

theorem content_at_commit_counterexample:
  "get_file_content_at_commit
     \<lparr>iter_commits = (\<lambda>p. []),
      commit_tree = (\<lambda>h. if h = str ''abc1234''
        then Some (\<lambda>p. if p = str ''legacy.py'' then Some [120, 255] else None) else None)\<rparr>
     \<lparr>utf_8 = (\<lambda>b. None), cp949 = (\<lambda>b. None), euc_kr = (\<lambda>b. None),
      utf_8_replace = (\<lambda>b. [120, 65533])\<rparr>
     (str ''abc1234'') (str ''legacy.py'')
   \<noteq> Some (utf_8_replace
       \<lparr>utf_8 = (\<lambda>b. None), cp949 = (\<lambda>b. None), euc_kr = (\<lambda>b. None),
        utf_8_replace = (\<lambda>b. [120, 65533])\<rparr> [120, 255])"
  by (simp add: get_file_content_at_commit_def try_encodings_latin_1)

text \<open>
  C8, amended: for a path that has a blob at a commit, \<open>get_file_content_at_commit\<close>
  returns a text for every byte sequence: that of the first of UTF-8, CP949 and EUC-KR
  that decodes the bytes, and the Latin-1 text otherwise, which every byte sequence has,
  so the replacing UTF-8 decoder after the loop is never reached. No decoding failure
  leaves the function, and for every repository the result is \<open>None\<close> exactly when the
  commit or the path in it is not there.
\<close>

theorem content_at_commit_decodes:
  assumes "commit_tree repo h = Some tree" and "tree p = Some raw_data"
  shows "get_file_content_at_commit repo cd h p =
     Some (case utf_8 cd raw_data of
             Some s \<Rightarrow> s
           | None \<Rightarrow>
               (case cp949 cd raw_data of
                  Some s \<Rightarrow> s
                | None \<Rightarrow> (case euc_kr cd raw_data of Some s \<Rightarrow> s | None \<Rightarrow> raw_data)))
   \<and> (\<forall>repo' hash path. get_file_content_at_commit repo' cd hash path = None \<longleftrightarrow>
         (case commit_tree repo' hash of None \<Rightarrow> True | Some t \<Rightarrow> t path = None))"
  using assms
  by (auto simp: get_file_content_at_commit_def try_encodings_latin_1 split: option.splits)

theorem content_at_commit_decodes_witness:
  "get_file_content_at_commit
     \<lparr>iter_commits = (\<lambda>p. []),
      commit_tree = (\<lambda>h. if h = str ''abc1234''
        then Some (\<lambda>p. if p = str ''a.py'' then Some [120, 255] else None) else None)\<rparr>
     \<lparr>utf_8 = (\<lambda>b. None), cp949 = (\<lambda>b. None), euc_kr = (\<lambda>b. None),
      utf_8_replace = (\<lambda>b. [120, 65533])\<rparr>
     (str ''abc1234'') (str ''a.py'') = Some [120, 255]"
  using content_at_commit_decodes [of
     "\<lparr>iter_commits = (\<lambda>p. []),
      commit_tree = (\<lambda>h. if h = str ''abc1234''
        then Some (\<lambda>p. if p = str ''a.py'' then Some [120, 255] else None) else None)\<rparr>"
     "str ''abc1234''" "\<lambda>p. if p = str ''a.py'' then Some [120, 255] else None" "str ''a.py''"
     "[120, 255]"
     "\<lparr>utf_8 = (\<lambda>b. None), cp949 = (\<lambda>b. None), euc_kr = (\<lambda>b. None),
      utf_8_replace = (\<lambda>b. [120, 65533])\<rparr>"]
  by simp

section \<open>The history of a construct\<close>

text \<open>The value the code compares is the reduced content, and its record the record.\<close>

lemma content_code_reduced:
  "content_code tr fp nn nt sl el c = reduced tr fp nn nt sl el c"
  by (simp add: content_code_def node_code_def reduced_def split: option.splits)

lemma change_change_record: "change tr c before after = change_record (dmp tr) c before after"
  by (cases before; cases after) (simp_all add: change_def change_record_def)

lemma all_values_Inr: "all_values xs = Inr vs \<Longrightarrow> xs = map Inr vs"
proof (induction xs arbitrary: vs)
  case Nil
  then show ?case by simp
next
  case (Cons x xs)
  then show ?case
    by (cases x) (auto split: sum.splits)
qed

lemma reduced_values_last:
  assumes "reduced_values tr fp nn nt sl el cs = Inr vs" and "cs \<noteq> []"
  shows "length vs = length cs" and "reduced tr fp nn nt sl el (last cs) = Inr (last vs)"
proof -
  have m: "map (reduced tr fp nn nt sl el) cs = map Inr vs"
    using assms(1) by (simp add: reduced_values_def all_values_Inr)
  then show l: "length vs = length cs"
    by (metis length_map)
  then have "vs \<noteq> []"
    using assms(2) by auto
  then have "last (map Inr vs) = (Inr (last vs) :: exn + py_str option)"
    by (simp add: last_map)
  then show "reduced tr fp nn nt sl el (last cs) = Inr (last vs)"
    using m assms(2) by (metis last_map)
qed

text \<open>The loop gives the records of the pairs, or the first exception of a lookup.\<close>

lemma compare_commits_pairs:
  "compare_commits tr fp nn nt sl el (c # d # older) history =
     (case reduced_values tr fp nn nt sl el (c # d # older) of
        Inl e \<Rightarrow> Inl e
      | Inr vs \<Rightarrow> Inr (history @ pair_records (dmp tr) (zip (c # d # older) vs)))"
proof (induction older arbitrary: c d history)
  case Nil
  show ?case
    by (cases "reduced tr fp nn nt sl el c"; cases "reduced tr fp nn nt sl el d")
      (simp_all add: reduced_values_def content_code_reduced pair_records_def
        change_change_record)
next
  case (Cons e older)
  show ?case
  proof (cases "reduced tr fp nn nt sl el c")
    case (Inl x)
    then show ?thesis
      by (subst compare_commits.simps(1))
        (simp add: reduced_values_def content_code_reduced del: compare_commits.simps)
  next
    case a: (Inr a)
    show ?thesis
    proof (cases "reduced tr fp nn nt sl el d")
      case (Inl x)
      then show ?thesis
        using a
        by (subst compare_commits.simps(1))
          (simp add: reduced_values_def content_code_reduced del: compare_commits.simps)
    next
      case b: (Inr b)
      have rv: "reduced_values tr fp nn nt sl el (c # d # e # older) =
          (case reduced_values tr fp nn nt sl el (d # e # older) of
             Inl x \<Rightarrow> Inl x
           | Inr vs \<Rightarrow> Inr (a # vs))"
        using a by (simp add: reduced_values_def)
      have step: "compare_commits tr fp nn nt sl el (c # d # e # older) history =
          compare_commits tr fp nn nt sl el (d # e # older)
            (history @ (if \<not> (a = None \<and> b = None) \<and> a \<noteq> b
                        then [change_record (dmp tr) c b a] else []))"
        using a b
        by (subst compare_commits.simps(1))
          (auto simp: content_code_reduced change_change_record
            simp del: compare_commits.simps)
      show ?thesis
      proof (cases "reduced_values tr fp nn nt sl el (d # e # older)")
        case (Inl x)
        then show ?thesis
          by (simp add: step rv Cons.IH del: compare_commits.simps)
      next
        case (Inr vs)
        then have "\<exists>ws. vs = b # ws"
          using b by (auto simp: reduced_values_def split: sum.splits)
        then obtain ws where ws: "vs = b # ws" by blast
        show ?thesis
          using Inr ws
          by (simp add: step rv Cons.IH pair_records_def del: compare_commits.simps)
      qed
    qed
  qed
qed

lemma creation_records_last:
  "commits \<noteq> [] \<Longrightarrow>
   creation_records core commits =
     (case snd (last commits) of
        None \<Rightarrow> []
      | Some first_code \<Rightarrow>
          if Some first_code \<in> set (map code_before (pair_records core commits)) then []
          else [change_record core (fst (last commits)) None (Some first_code)])"
  unfolding creation_records_def by (cases commits) simp_all

lemma trace_history_eq:
  "trace_history tr fp nn nt sl el =
     (let cs = iter_commits (git_manager tr) fp in
      if cs = [] then Inr []
      else
        (case reduced_values tr fp nn nt sl el cs of
           Inl e \<Rightarrow> Inl e
         | Inr vs \<Rightarrow>
             Inr (pair_records (dmp tr) (zip cs vs) @ creation_records (dmp tr) (zip cs vs))))"
proof -
  let ?cs = "iter_commits (git_manager tr) fp"
  consider (1) "?cs = []" | (2) c where "?cs = [c]"
    | (3) c d older where "?cs = c # d # older"
    by (metis list.exhaust)
  then show ?thesis
  proof cases
    case 1
    then show ?thesis
      by (simp add: trace_history_def)
  next
    case 2
    then show ?thesis
      by (cases "reduced tr fp nn nt sl el c")
        (auto simp: trace_history_def content_code_reduced reduced_values_def pair_records_def
          creation_records_def change_change_record split: option.splits)
  next
    case 3
    show ?thesis
    proof (cases "reduced_values tr fp nn nt sl el ?cs")
      case (Inl e)
      then show ?thesis
        using 3
        by (simp add: trace_history_def compare_commits_pairs del: compare_commits.simps)
    next
      case (Inr vs)
      have ne: "?cs \<noteq> []"
        using 3 by simp
      have len: "length vs = length ?cs"
        and lst: "reduced tr fp nn nt sl el (last ?cs) = Inr (last vs)"
        using reduced_values_last [OF Inr ne] by simp_all
      have vne: "vs \<noteq> []"
        using len ne by auto
      have z: "zip ?cs vs \<noteq> []"
        using ne vne by (cases ?cs; cases vs) simp_all
      have lz: "last (zip ?cs vs) = (last ?cs, last vs)"
        using ne vne len by (simp add: last_zip)
      have loop: "compare_commits tr fp nn nt sl el ?cs [] =
          Inr (pair_records (dmp tr) (zip ?cs vs))"
        using Inr 3 by (simp add: compare_commits_pairs del: compare_commits.simps)
      have ex: "list_ex (\<lambda>r. code_before r = v) rs = (v \<in> set (map code_before rs))"
        for v and rs :: "CommitChange list"
        by (auto simp: list_ex_iff)
      have cr: "creation_records (dmp tr) (zip ?cs vs) =
          (case last vs of
             None \<Rightarrow> []
           | Some first_code \<Rightarrow>
               if Some first_code \<in> set (map code_before (pair_records (dmp tr) (zip ?cs vs)))
               then []
               else [change_record (dmp tr) (last ?cs) None (Some first_code)])"
        unfolding creation_records_last [OF z] lz by (simp split: option.splits)
      show ?thesis
        using ne
        by (cases "last vs")
          (simp_all add: trace_history_def Let_def loop Inr content_code_reduced lst ex cr
            change_change_record del: set_map compare_commits.simps)
    qed
  qed
qed






text \<open>
  An exception of a lookup leaves \<open>trace_history\<close>: when the reduced content of a commit of
  the path cannot be computed, no history is returned.
\<close>

lemma trace_history_raises:
  assumes "reduced_values tr fp nn nt sl el (iter_commits (git_manager tr) fp) = Inl e"
  shows "trace_history tr fp nn nt sl el = Inl e"
proof -
  have "iter_commits (git_manager tr) fp \<noteq> []"
    using assms by (auto simp: reduced_values_def)
  then show ?thesis
    using assms by (simp add: trace_history_eq Let_def)
qed

lemmas small_defs =
  small_repository_def created_def modified_def deleted_def assignment_def foo_source_def
  foo_body_def small_parser_def reduced_def get_file_content_at_commit_def
  try_encodings_latin_1 find_node_body_def QUERIES_def function_query_def class_query_def
  module_query_def

text \<open>
  In the small repository a name with a double quote makes the lookup raise at the newest
  commit of \<open>a.py\<close>, and the exception is the result of \<open>trace_history\<close>.
\<close>

lemma small_repository_raises:
  "trace_history small_repository (str ''a.py'') (Some (str ''fo\"o'')) (Some (str ''function''))
     None None = Inl (Exception (str ''Invalid syntax''))"
proof -
  have "reduced_values small_repository (str ''a.py'') (Some (str ''fo\"o''))
      (Some (str ''function'')) None None
      (iter_commits (git_manager small_repository) (str ''a.py'')) =
      Inl (Exception (str ''Invalid syntax''))"
    by (simp add: reduced_values_def small_defs str_def)
  then show ?thesis
    by (rule trace_history_raises)
qed





text \<open>
  The history of the whole file \<open>c.py\<close>, which the newest commit deletes: the pair gives
  the record of the deletion, whose text before is the content at the oldest commit, so
  no record of creation follows.
\<close>

lemma small_repository_whole_file:
  "trace_history small_repository (str ''c.py'') None None None None =
     Inr [\<lparr>commit_hash = str ''3333333'', commit_message = str ''remove foo'',
           author = str ''lee'', date = str ''2025-01-03 10:00:00'',
           code_before = Some (str ''x = 1\<newline>''), code_after = None,
           highlighted_diff = str ''- x = 1\<newline>''\<rparr>]"
  by (simp add: trace_history_eq Let_def reduced_values_def small_defs pair_records_def
      creation_records_def change_record_def generate_highlighted_diff_def dmp_line_diff_def
      splitlines_def is_linebreak_def strip_def is_space_def str_def)

section \<open>Pulling\<close>

lemma run_log:
  "run sv command cwd w = (r, w') \<Longrightarrow> git_log w' = git_log w @ [command] \<and> calls w' = calls w"
  by (auto simp: run_def Let_def split: prod.splits proc_outcome.splits if_splits)

text \<open>
  C10: for a repository that exists, \<open>pull_repository\<close> runs \<open>git checkout main\<close> first.
  When that command completes with return code zero, \<open>git pull\<close> is the next and last
  command. Otherwise, as in a repository with no branch \<open>main\<close>, no other command is
  run, the state outside is as the checkout left it, and the result is a failure; when
  git completed with another return code the failure carries git's error text.
\<close>

theorem pull_repository_checks_out_main:
  assumes "repo_exists sv repo_name (ext w)"
    and "subprocess_run sv checkout_main (get_repo_path sv repo_name) (ext w) = (outcome, x)"
    and "pull_repository sv repo_name w = (r, w')"
  shows "if \<exists>out err. outcome = Completed 0 out err
         then git_log w' = git_log w @ [checkout_main, git_pull]
         else git_log w' = git_log w @ [checkout_main] \<and> ext w' = x \<and> \<not> pull_success r \<and>
              (\<forall>returncode out err. outcome = Completed returncode out err \<longrightarrow>
                 pull_error r = Some err)"
proof (cases "\<exists>out err. outcome = Completed 0 out err")
  case True
  then obtain out err where oc: "outcome = Completed 0 out err" by blast
  have co: "run sv checkout_main (get_repo_path sv repo_name) w =
      (Inr (out, err), w\<lparr>ext := x, git_log := git_log w @ [checkout_main]\<rparr>)"
    using assms(2) oc by (simp add: run_def)
  obtain r2 w2 where p: "run sv git_pull (get_repo_path sv repo_name)
      (w\<lparr>ext := x, git_log := git_log w @ [checkout_main]\<rparr>) = (r2, w2)"
    by (cases "run sv git_pull (get_repo_path sv repo_name)
      (w\<lparr>ext := x, git_log := git_log w @ [checkout_main]\<rparr>)")
  have "git_log w2 = git_log w @ [checkout_main, git_pull]"
    using run_log [OF p] by simp
  moreover have "w' = w2"
    using assms(1,3) co p by (auto simp: pull_repository_def Let_def split: sum.splits)
  ultimately show ?thesis using True by simp
next
  case False
  then show ?thesis
    using assms
    by (cases outcome) (auto simp: pull_repository_def run_def Let_def pull_failed_def)
qed

theorem pull_repository_checks_out_main_witness:
  "pull_repository (example_services (git_without_main []) unused unused unused)
      (str ''demo'') active_world =
     (pull_failed (str ''demo'')
        (str ''error: pathspec 'main' did not match any file(s) known to git''),
      active_world\<lparr>git_log := [checkout_main]\<rparr>)"
proof -
  let ?sv = "example_services (git_without_main []) unused unused unused"
  let ?err = "str ''error: pathspec 'main' did not match any file(s) known to git''"
  obtain r w' where res: "pull_repository ?sv (str ''demo'') active_world = (r, w')"
    by (cases "pull_repository ?sv (str ''demo'') active_world")
  have ex: "repo_exists ?sv (str ''demo'') (ext active_world)"
    by (simp add: example_services_def)
  have co: "subprocess_run ?sv checkout_main (get_repo_path ?sv (str ''demo''))
      (ext active_world) = (Completed 1 [] ?err, ())"
    by (simp add: example_services_def git_without_main_def)
  have "git_log w' = git_log active_world @ [checkout_main] \<and> ext w' = () \<and>
      \<not> pull_success r \<and> pull_error r = Some ?err"
    using pull_repository_checks_out_main [OF ex co res] by simp
  then show ?thesis
    using res
    by (simp add: pull_repository_def example_services_def git_without_main_def run_def
        Let_def active_world_def)
qed

section \<open>Detecting changes\<close>

text \<open>The suffix of a name with an extension is the dot and the extension.\<close>

lemma suffix_extension:
  assumes "stem \<noteq> []" and "e \<noteq> []" and "46 \<notin> set e"
  shows "suffix (stem @ 46 # e) = 46 # e"
proof -
  have "takeWhile (\<lambda>c. c \<noteq> 46) (rev (stem @ 46 # e)) = rev e"
    using assms(3) by (auto simp: takeWhile_tail)
  then show ?thesis
    using assms(1,2) by (simp add: suffix_def Let_def)
qed

lemma format_source_file_map:
  "format_source_file ps = Inr qs \<Longrightarrow> map with_suffix_json ps = map Inr qs"
proof (induction ps arbitrary: qs)
  case Nil
  then show ?case by auto
next
  case (Cons p ps)
  then show ?case
    by (auto split: sum.splits)
qed

lemma format_source_file_named:
  "list_all (\<lambda>p. path_parts p \<noteq> []) ps \<Longrightarrow> \<exists>qs. format_source_file ps = Inr qs"
proof (induction ps)
  case Nil
  then show ?case by simp
next
  case (Cons p ps)
  then show ?case
    by (auto simp: with_suffix_json_def Let_def)
qed

text \<open>
  C6, as stated, fails: the paths are not returned unchanged. When git prints
  \<open>src/api/utils.py\<close>, \<open>diff_files\<close> returns \<open>src/api/utils.json\<close>; and when git prints
  \<open>a.py\<close> and \<open>a.txt\<close>, it returns \<open>a.json\<close> twice, so the list is not free of
  duplicates either.
\<close>

theorem diff_files_counterexample:
  "fst (diff_files
          (example_services (git_prints (str ''src/api/utils.py\<newline>'')) unused unused unused)
          (str ''demo'') active_world) =
     Inr \<lparr>diff_success = True, files = [str ''src/api/utils.json''],
          diff_message = Some (str ''Found 1 changed files between local and remote.''),
          diff_error = None\<rparr>
   \<and> fst (diff_files
          (example_services (git_prints (str ''a.py\<newline>a.txt\<newline>'')) unused unused unused)
          (str ''demo'') active_world) =
     Inr \<lparr>diff_success = True, files = [str ''a.json'', str ''a.json''],
          diff_message = Some (str ''Found 2 changed files between local and remote.''),
          diff_error = None\<rparr>"
  by (simp add: diff_files_def example_services_def git_prints_def run_def Let_def
      active_world_def git_fetch_def git_diff_def raw_changed_files_def strip_def is_space_def
      with_suffix_json_def path_parts_def path_root_def path_str_def suffix_def str_def)

text \<open>
  C6, amended: for a repository that exists, when \<open>git fetch\<close> and then
  \<open>git diff --name-only HEAD origin/main\<close> complete with return code zero and every
  printed path has a name, \<open>diff_files\<close> succeeds and returns, in the order of git's
  output, each printed path with its suffix replaced by \<open>.json\<close> (\<open>with_suffix_json\<close>);
  the list is empty when git prints nothing. These two commands are the only ones it
  runs.
\<close>

theorem diff_files_json_paths:
  assumes "repo_exists sv repo_name (ext w)"
    and "subprocess_run sv git_fetch (get_repo_path sv repo_name) (ext w) =
           (Completed 0 out1 err1, x1)"
    and "subprocess_run sv git_diff (get_repo_path sv repo_name) x1 =
           (Completed 0 stdout err, x2)"
    and "list_all (\<lambda>p. path_parts p \<noteq> []) (raw_changed_files stdout)"
  shows "\<exists>r. diff_files sv repo_name w =
           (Inr r, w\<lparr>ext := x2, git_log := git_log w @ [git_fetch, git_diff]\<rparr>)
         \<and> diff_success r
         \<and> map Inr (files r) = map with_suffix_json (raw_changed_files stdout)
         \<and> (strip stdout = [] \<longrightarrow> files r = [])"
proof -
  obtain qs where qs: "format_source_file (raw_changed_files stdout) = Inr qs"
    using format_source_file_named [OF assms(4)] by blast
  have m: "map Inr qs = map with_suffix_json (raw_changed_files stdout)"
    using qs by (simp add: format_source_file_map)
  have e: "strip stdout = [] \<longrightarrow> qs = []"
    using qs by (auto simp: raw_changed_files_def)
  show ?thesis
    using assms(1-3) qs m e
    by (simp add: diff_files_def run_def Let_def)
qed

theorem diff_files_json_paths_witness:
  "diff_files
     (example_services (git_prints (str ''src/api/utils.py\<newline>README.md\<newline>'')) unused
        unused unused)
     (str ''demo'') active_world =
     (Inr \<lparr>diff_success = True, files = [str ''src/api/utils.json'', str ''README.json''],
           diff_message = Some (str ''Found 2 changed files between local and remote.''),
           diff_error = None\<rparr>,
      active_world\<lparr>git_log := [git_fetch, git_diff]\<rparr>)"
proof -
  let ?out = "str ''src/api/utils.py\<newline>README.md\<newline>''"
  let ?sv = "example_services (git_prints ?out) unused unused unused"
  have raw: "raw_changed_files ?out = [str ''src/api/utils.py'', str ''README.md'']"
    by (simp add: raw_changed_files_def strip_def is_space_def str_def)
  have ex: "repo_exists ?sv (str ''demo'') (ext active_world)"
    by (simp add: example_services_def)
  have fetch: "subprocess_run ?sv git_fetch (get_repo_path ?sv (str ''demo''))
      (ext active_world) = (Completed 0 [] [], ())"
    by (simp add: example_services_def git_prints_def git_fetch_def git_diff_def str_def)
  have diff: "subprocess_run ?sv git_diff (get_repo_path ?sv (str ''demo'')) () =
      (Completed 0 ?out [], ())"
    by (simp add: example_services_def git_prints_def)
  have named: "list_all (\<lambda>p. path_parts p \<noteq> []) (raw_changed_files ?out)"
    unfolding raw by (simp add: path_parts_def str_def)
  obtain r where r: "diff_files ?sv (str ''demo'') active_world =
      (Inr r, active_world\<lparr>ext := (), git_log := git_log active_world @ [git_fetch, git_diff]\<rparr>)"
    and ok: "diff_success r"
    and fs: "map Inr (files r) = map with_suffix_json (raw_changed_files ?out)"
    using diff_files_json_paths [OF ex fetch diff named] by blast
  have "map Inr (files r) =
      map with_suffix_json [str ''src/api/utils.py'', str ''README.md'']"
    using fs unfolding raw .
  then have "files r = [str ''src/api/utils.json'', str ''README.json'']"
    by (auto simp: with_suffix_json_def path_parts_def path_root_def path_str_def suffix_def
        str_def Let_def map_eq_Cons_conv)
  then show ?thesis
    using r
    by (simp add: diff_files_def example_services_def git_prints_def run_def Let_def
        active_world_def git_fetch_def git_diff_def raw_changed_files_def strip_def is_space_def
        with_suffix_json_def path_parts_def path_root_def path_str_def suffix_def str_def)
qed

section \<open>Triggering a sync\<close>

text \<open>
  C9: the endpoint does not keep at most one sync of a repository in flight. It tests the
  status but does not set it; the worker sets it to \<open>updating\<close> only when it takes the
  task. A second request for an active repository that arrives before that is accepted
  as well, and two tasks for the repository are in the queue.
\<close>

theorem sync_repository_accepts_twice:
  "fst (sync_repository (str ''r-1'') (str ''u-1'') two_repositories) =
     Started (str ''Repository sync started for '' @ quoted (str ''demo'')) (str ''r-1'')
   \<and> fst (sync_repository (str ''r-1'') (str ''u-1'')
        (snd (sync_repository (str ''r-1'') (str ''u-1'') two_repositories))) =
     Started (str ''Repository sync started for '' @ quoted (str ''demo'')) (str ''r-1'')
   \<and> in_flight (str ''r-1'')
        (snd (sync_repository (str ''r-1'') (str ''u-1'')
          (snd (sync_repository (str ''r-1'') (str ''u-1'') two_repositories)))) = 2"
  by (simp add: sync_repository_def two_repositories_def busy_def in_flight_def str_def
      replace_char_def)

text \<open>
  C9, the part that the code keeps: for every repository whose status is \<open>syncing\<close>,
  \<open>updating\<close> or \<open>pending\<close>, a sync request of a user with the permission \<open>admin\<close> is
  rejected at once with the error 400 that names the status; no task is sent, and the
  rows of the repositories are as before.
\<close>

theorem sync_repository_rejects_busy:
  assumes "(repo_id, user_id) \<in> admins st"
    and "repositories st repo_id = Some repository"
    and "status repository \<in> {str ''syncing'', str ''updating'', str ''pending''}"
  shows "sync_repository repo_id user_id st =
     (HTTPException 400
        (str ''Repository is already being processed (status: '' @ status repository @
         str '')''),
      st)"
  using assms by (auto simp: sync_repository_def busy_def)

theorem sync_repository_rejects_busy_witness:
  "sync_repository (str ''r-2'') (str ''u-1'') two_repositories =
     (HTTPException 400 (str ''Repository is already being processed (status: updating)''),
      two_repositories)"
proof -
  have a: "(str ''r-2'', str ''u-1'') \<in> admins two_repositories"
    by (simp add: two_repositories_def)
  have r: "repositories two_repositories (str ''r-2'') =
      Some \<lparr>name = str ''other'', status = str ''updating''\<rparr>"
    by (simp add: two_repositories_def str_def)
  have s: "status \<lparr>name = str ''other'', status = str ''updating''\<rparr> \<in>
      {str ''syncing'', str ''updating'', str ''pending''}"
    by simp
  show ?thesis
    using sync_repository_rejects_busy [OF a r s] by (simp add: str_def)
qed


section \<open>Running the pipeline\<close>

text \<open>The git operations call no service of the index or of the parser.\<close>

lemma diff_files_calls:
  assumes "diff_files sv repo_name w = (r, w')"
  shows "calls w' = calls w"
proof (cases "repo_exists sv repo_name (ext w)")
  case False
  then show ?thesis
    using assms by (simp add: diff_files_def)
next
  case True
  obtain r1 w1 where f: "run sv git_fetch (get_repo_path sv repo_name) w = (r1, w1)"
    by (cases "run sv git_fetch (get_repo_path sv repo_name) w")
  have c1: "calls w1 = calls w"
    using run_log [OF f] by simp
  show ?thesis
  proof (cases r1)
    case (Inl e)
    then have "w' = w1"
      using assms True f by (simp add: diff_files_def Let_def)
    then show ?thesis using c1 by simp
  next
    case (Inr a)
    obtain r2 w2 where d: "run sv git_diff (get_repo_path sv repo_name) w1 = (r2, w2)"
      by (cases "run sv git_diff (get_repo_path sv repo_name) w1")
    have c2: "calls w2 = calls w1"
      using run_log [OF d] by simp
    have "w' = w2"
      using assms True f Inr d
      by (cases r2) (auto simp: diff_files_def Let_def split: sum.splits)
    then show ?thesis using c1 c2 by simp
  qed
qed

lemma pull_repository_calls:
  assumes "pull_repository sv repo_name w = (r, w')"
  shows "calls w' = calls w"
proof (cases "repo_exists sv repo_name (ext w)")
  case False
  then show ?thesis
    using assms by (simp add: pull_repository_def)
next
  case True
  obtain r1 w1 where co: "run sv checkout_main (get_repo_path sv repo_name) w = (r1, w1)"
    by (cases "run sv checkout_main (get_repo_path sv repo_name) w")
  have c1: "calls w1 = calls w"
    using run_log [OF co] by simp
  show ?thesis
  proof (cases r1)
    case (Inl e)
    then have "w' = w1"
      using assms True co by (simp add: pull_repository_def Let_def)
    then show ?thesis using c1 by simp
  next
    case (Inr a)
    obtain r2 w2 where pl: "run sv git_pull (get_repo_path sv repo_name) w1 = (r2, w2)"
      by (cases "run sv git_pull (get_repo_path sv repo_name) w1")
    have c2: "calls w2 = calls w1"
      using run_log [OF pl] by simp
    have "w' = w2"
      using assms True co Inr pl
      by (cases r2) (auto simp: pull_repository_def Let_def)
    then show ?thesis using c1 c2 by simp
  qed
qed


lemma update_repository_status_fields:
  "ext (update_repository_status w s v) = ext w"
  "calls (update_repository_status w s v) = calls w"
  "git_log (update_repository_status w s v) = git_log w"
  "repo_status (update_repository_status w s v) = s"
  "repo_vectordb_status (update_repository_status w s v) = v"
  by (simp_all add: update_repository_status_def)


lemmas run_defs = update_repository_pipeline_def pipeline_body_def detecting_changes_def pulling_def
      invalidating_def reparsing_def embedding_def json_file_path_def path_join_def
      diff_files_def diff_failed_def
      pull_repository_def pull_failed_def example_services_def git_without_main_def git_offline_def
      git_prints_def run_def Let_def active_world_def update_repository_status_def update_file_count_def
      git_fetch_def git_diff_def checkout_main_def git_pull_def raw_changed_files_def strip_def is_space_def
      with_suffix_json_def path_parts_def path_root_def path_str_def suffix_def unused_def str_def


text \<open>
  C3, as stated, fails: an empty change set alone does not make the pipeline parse the
  repository and end in the state \<open>active\<close>. In a repository with no branch \<open>main\<close>
  nothing has changed, the pull fails, no service is called, and the pipeline ends with
  both states \<open>error\<close>.
\<close>

theorem empty_change_set_counterexample:
  "fst (diff_files (example_services (git_without_main []) unused unused unused) (str ''demo'')
          (update_repository_status active_world (str ''updating'') (str ''pending''))) =
     Inr \<lparr>diff_success = True, files = [],
          diff_message = Some (str ''Found 0 changed files between local and remote.''),
          diff_error = None\<rparr>
   \<and> update_repository_pipeline (example_services (git_without_main []) unused unused unused)
       (str ''r-1'') (str ''demo'') (str ''repo_r_1'') True (str ''text-embedding-3-small'')
       active_world =
     (Failed (str ''pull'')
        (str ''Git pull failed: error: pathspec 'main' did not match any file(s) known to git''),
      active_world\<lparr>git_log := [git_fetch, git_diff, checkout_main],
        repo_status := str ''error'', repo_vectordb_status := str ''error''\<rparr>)"
  by (simp add: update_repository_pipeline_def pipeline_body_def detecting_changes_def pulling_def
      diff_files_def
      pull_repository_def pull_failed_def example_services_def git_without_main_def
      git_prints_def run_def Let_def active_world_def update_repository_status_def
      git_fetch_def git_diff_def checkout_main_def raw_changed_files_def strip_def str_def)

text \<open>
  C3, amended: when the change set is empty and the pull and the parsing of the whole
  repository succeed, the pipeline parses the repository again (\<open>parse_repository\<close> for
  the repository is its one call of a service), deletes nothing from the index, embeds
  nothing, ends with both states \<open>active\<close>, and reports \<open>deleted_count = 0\<close> and
  \<open>embedded_count = 0\<close>.
\<close>

theorem empty_change_set_reparses:
  assumes "diff_files sv repo_name (update_repository_status w (str ''updating'') (str ''pending''))
      = (Inr d, w1)"
    and "diff_success d" and "files d = []"
    and "pull_repository sv repo_name w1 = (p, w2)" and "pull_success p"
    and "parse_repository sv repo_name save_json (ext w2) = (Inr pr, x)" and "parse_success pr"
  shows "\<exists>w'. update_repository_pipeline sv repo_id repo_name collection_name save_json model_key w =
            (Succeeded (total_files pr) 0 0, w')
         \<and> calls w' = calls w @ [Parse_repository repo_name save_json]
         \<and> repo_status w' = str ''active'' \<and> repo_vectordb_status w' = str ''active''"
proof -
  have c1: "calls w1 = calls w"
    using diff_files_calls [OF assms(1)] by (simp add: update_repository_status_def)
  have c2: "calls w2 = calls w1"
    using pull_repository_calls [OF assms(4)] .
  have s1: "detecting_changes sv repo_name
      (update_repository_status w (str ''updating'') (str ''pending'')) = (Inr [], w1)"
    using assms(1-3) by (simp add: detecting_changes_def)
  have s2: "pulling sv repo_name w1 = (Inr (), w2)"
    using assms(4,5) by (simp add: pulling_def)
  have body: "pipeline_body sv repo_name collection_name save_json model_key w =
      (Inr (Succeeded (total_files pr) 0 0),
       update_repository_status
         (update_file_count
            ((update_repository_status w2 (str ''updating'') (str ''updating''))
               \<lparr>ext := x,
                calls := calls w2 @ [Parse_repository repo_name save_json]\<rparr>)
            (total_files pr))
         (str ''active'') (str ''active''))"
    using assms(6,7)
    by (simp add: pipeline_body_def s1 s2 invalidating_def reparsing_def embedding_def Let_def
        update_repository_status_fields)
  show ?thesis
    using c1 c2
    by (simp add: update_repository_pipeline_def body update_repository_status_fields
        update_file_count_def)
qed


theorem empty_change_set_reparses_witness:
  "update_repository_pipeline
     (example_services (git_prints []) unused
        (Inr \<lparr>parse_success = True, total_files = 5, parse_error = None\<rparr>) unused)
     (str ''r-1'') (str ''demo'') (str ''repo_r_1'') True (str ''text-embedding-3-small'')
     active_world =
   (Succeeded 5 0 0,
    active_world\<lparr>git_log := [git_fetch, git_diff, checkout_main, git_pull],
      calls := [Parse_repository (str ''demo'') True], repo_file_count := 5\<rparr>)"
proof -
  let ?sv = "example_services (git_prints []) unused
    (Inr \<lparr>parse_success = True, total_files = 5, parse_error = None\<rparr>) unused"
  let ?w0 = "update_repository_status active_world (str ''updating'') (str ''pending'')"
  let ?d = "\<lparr>diff_success = True, files = [],
    diff_message = Some (str ''Found 0 changed files between local and remote.''),
    diff_error = None\<rparr>"
  let ?p = "\<lparr>pull_success = True, pull_repo_name = str ''demo'',
    pull_repo_path = str ''repository/demo'', pull_message = Some [], pull_error = None\<rparr>"
  have d: "diff_files ?sv (str ''demo'') ?w0 = (Inr ?d, ?w0\<lparr>git_log := [git_fetch, git_diff]\<rparr>)"
    by (simp add: diff_files_def example_services_def git_prints_def run_def Let_def
        active_world_def update_repository_status_def git_fetch_def git_diff_def
        raw_changed_files_def strip_def str_def)
  have p: "pull_repository ?sv (str ''demo'') (?w0\<lparr>git_log := [git_fetch, git_diff]\<rparr>) =
      (?p, ?w0\<lparr>git_log := [git_fetch, git_diff, checkout_main, git_pull]\<rparr>)"
    by (simp add: pull_repository_def example_services_def git_prints_def run_def Let_def
        active_world_def update_repository_status_def git_diff_def checkout_main_def
        git_pull_def str_def)
  have pr: "parse_repository ?sv (str ''demo'') True
      (ext (?w0\<lparr>git_log := [git_fetch, git_diff, checkout_main, git_pull]\<rparr>)) =
      (Inr \<lparr>parse_success = True, total_files = 5, parse_error = None\<rparr>, ())"
    by (simp add: example_services_def)
  have "\<exists>w'. update_repository_pipeline ?sv (str ''r-1'') (str ''demo'') (str ''repo_r_1'')
      True (str ''text-embedding-3-small'') active_world = (Succeeded 5 0 0, w')
      \<and> calls w' = calls active_world @ [Parse_repository (str ''demo'') True]
      \<and> repo_status w' = str ''active'' \<and> repo_vectordb_status w' = str ''active''"
    using empty_change_set_reparses [OF d _ _ p _ pr, where repo_id = "str ''r-1''"
      and collection_name = "str ''repo_r_1''" and model_key = "str ''text-embedding-3-small''"]
    by simp
  then show ?thesis
    by (simp add: update_repository_pipeline_def pipeline_body_def detecting_changes_def
        pulling_def invalidating_def reparsing_def embedding_def diff_files_def
        pull_repository_def example_services_def git_prints_def run_def Let_def
        active_world_def update_repository_status_def update_file_count_def git_fetch_def
        git_diff_def checkout_main_def git_pull_def raw_changed_files_def strip_def str_def)
qed

section \<open>A stage that fails\<close>

lemma detecting_changes_ended:
  assumes "detecting_changes sv repo_name w = (Inl (Inr r), w')"
  shows "repo_vectordb_status w' = str ''error'' \<and> (\<exists>step err. r = Failed step err)"
proof -
  obtain a w1 where d: "diff_files sv repo_name w = (a, w1)"
    by (cases "diff_files sv repo_name w")
  show ?thesis
    using assms d
    by (cases a) (auto simp: detecting_changes_def update_repository_status_fields split: if_splits)
qed

lemma pulling_ended:
  assumes "pulling sv repo_name w = (Inl (Inr r), w')"
  shows "repo_vectordb_status w' = str ''error'' \<and> (\<exists>step err. r = Failed step err)"
proof -
  obtain a w1 where d: "pull_repository sv repo_name w = (a, w1)"
    by (cases "pull_repository sv repo_name w")
  show ?thesis
    using assms d
    by (auto simp: pulling_def update_repository_status_fields split: if_splits)
qed

lemma invalidating_ended:
  assumes "invalidating sv collection_name fs w = (Inl (Inr r), w')"
  shows "repo_vectordb_status w' = str ''error'' \<and> (\<exists>step err. r = Failed step err)"
proof -
  obtain a x where d: "delete_entities sv collection_name fs (ext w) = (a, x)"
    by (cases "delete_entities sv collection_name fs (ext w)")
  show ?thesis
    using assms d
    by (cases a)
      (auto simp: invalidating_def Let_def update_repository_status_fields split: if_splits)
qed

lemma reparsing_ended:
  assumes "reparsing sv repo_name save_json w = (Inl (Inr r), w')"
  shows "repo_vectordb_status w' = str ''error'' \<and> (\<exists>step err. r = Failed step err)"
proof -
  obtain a x where d: "parse_repository sv repo_name save_json (ext w) = (a, x)"
    by (cases "parse_repository sv repo_name save_json (ext w)")
  show ?thesis
    using assms d
    by (cases a)
      (auto simp: reparsing_def Let_def update_repository_status_fields split: if_splits)
qed

lemma embedding_ended:
  assumes "embedding sv repo_name collection_name model_key fs w = (Inl (Inr r), w')"
  shows "repo_vectordb_status w' = str ''error'' \<and> (\<exists>step err. r = Failed step err)"
proof -
  obtain a w1 where d: "embed_changed sv repo_name collection_name model_key fs 0 w = (a, w1)"
    by (cases "embed_changed sv repo_name collection_name model_key fs 0 w")
  show ?thesis
    using assms d
    by (auto simp: embedding_def update_repository_status_fields split: if_splits sum.splits)
qed

lemma pipeline_body_failed:
  assumes "pipeline_body sv repo_name collection_name save_json model_key w =
      (Inr (Failed step err), w')"
  shows "repo_vectordb_status w' = str ''error''"
proof -
  let ?w0 = "update_repository_status w (str ''updating'') (str ''pending'')"
  obtain a1 w1 where s1: "detecting_changes sv repo_name ?w0 = (a1, w1)"
    by (cases "detecting_changes sv repo_name ?w0")
  show ?thesis
  proof (cases a1)
    case (Inl ended)
    then show ?thesis
      using assms s1 detecting_changes_ended [of sv repo_name ?w0 "Failed step err" w']
      by (simp add: pipeline_body_def)
  next
    case fs: (Inr fs)
    obtain a2 w2 where s2: "pulling sv repo_name w1 = (a2, w2)"
      by (cases "pulling sv repo_name w1")
    show ?thesis
    proof (cases a2)
      case (Inl ended)
      then show ?thesis
        using assms s1 fs s2 pulling_ended [of sv repo_name w1 "Failed step err" w']
        by (simp add: pipeline_body_def)
    next
      case u: (Inr u)
      let ?w2 = "update_repository_status w2 (str ''updating'') (str ''updating'')"
      obtain a3 w3 where s3: "invalidating sv collection_name fs ?w2 = (a3, w3)"
        by (cases "invalidating sv collection_name fs ?w2")
      show ?thesis
      proof (cases a3)
        case (Inl ended)
        then show ?thesis
          using assms s1 fs s2 u s3
            invalidating_ended [of sv collection_name fs ?w2 "Failed step err" w']
          by (simp add: pipeline_body_def)
      next
        case n: (Inr n)
        obtain a4 w4 where s4: "reparsing sv repo_name save_json w3 = (a4, w4)"
          by (cases "reparsing sv repo_name save_json w3")
        show ?thesis
        proof (cases a4)
          case (Inl ended)
          then show ?thesis
            using assms s1 fs s2 u s3 n s4
              reparsing_ended [of sv repo_name save_json w3 "Failed step err" w']
            by (simp add: pipeline_body_def)
        next
          case m: (Inr m)
          obtain a5 w5 where s5:
            "embedding sv repo_name collection_name model_key fs w4 = (a5, w5)"
            by (cases "embedding sv repo_name collection_name model_key fs w4")
          show ?thesis
            using assms s1 fs s2 u s3 n s4 m s5
              embedding_ended [of sv repo_name collection_name model_key fs w4
                "Failed step err" w']
            by (cases a5) (simp_all add: pipeline_body_def)
        qed
      qed
    qed
  qed
qed

lemma pipeline_failed_status:
  assumes "update_repository_pipeline sv repo_id repo_name collection_name save_json model_key w =
      (Failed step err, w')"
  shows "repo_vectordb_status w' = str ''error''"
proof -
  obtain a w1 where b: "pipeline_body sv repo_name collection_name save_json model_key w = (a, w1)"
    by (cases "pipeline_body sv repo_name collection_name save_json model_key w")
  show ?thesis
  proof (cases a)
    case (Inl e)
    then show ?thesis
      using assms b by (auto simp: update_repository_pipeline_def update_repository_status_fields)
  next
    case (Inr r)
    then show ?thesis
      using assms b pipeline_body_failed [of sv repo_name collection_name save_json model_key w step err w']
      by (simp add: update_repository_pipeline_def)
  qed
qed

lemma embed_changed_failed:
  "embed_changed sv repo_name collection_name model_key fs n w = (Inr (Inl f), w') \<Longrightarrow>
     f \<in> set fs \<and>
     (\<exists>earlier. calls w' =
        calls w @ earlier @ [Embed_documents (json_file_path repo_name f) collection_name model_key])"
proof (induction sv repo_name collection_name model_key fs n w rule: embed_changed.induct)
  case (1 sv repo_name collection_name model_key n w)
  then show ?case by simp
next
  case (2 sv repo_name collection_name model_key json_filename rest n w)
  let ?path = "json_file_path repo_name json_filename"
  show ?case
  proof (cases "path_exists sv ?path (ext w)")
    case False
    then show ?thesis
      using 2 by (auto simp: Let_def)
  next
    case True
    obtain r x where e: "embed_documents sv ?path collection_name model_key (ext w) = (r, x)"
      by (cases "embed_documents sv ?path collection_name model_key (ext w)")
    let ?w = "w\<lparr>ext := x, calls := calls w @ [Embed_documents ?path collection_name model_key]\<rparr>"
    show ?thesis
    proof (cases r)
      case (Inl ex)
      then show ?thesis
        using "2.prems" True e by (simp add: Let_def)
    next
      case (Inr embed_result)
      show ?thesis
      proof (cases "embed_success embed_result")
        case False
        then show ?thesis
          using "2.prems" True e Inr by (auto simp: Let_def)
      next
        case ok: True
        have "embed_changed sv repo_name collection_name model_key rest
            (n + inserted_count embed_result) ?w = (Inr (Inl f), w')"
          using "2.prems" True e Inr ok by (simp add: Let_def)
        then have "f \<in> set rest \<and>
            (\<exists>earlier. calls w' = calls ?w @ earlier @
               [Embed_documents (json_file_path repo_name f) collection_name model_key])"
          using "2.IH"(2) [of ?path r x ?w embed_result] True e Inr ok by simp
        then show ?thesis
          by auto
      qed
    qed
  qed
qed

text \<open>
  C4, as stated, fails in two places. When the detection of changes fails, here because
  git cannot reach the remote, the stored status of the repository is \<open>active\<close>, not
  \<open>error\<close>; only the status of the vector index is \<open>error\<close>. And when a stage fails by
  raising, here the deletion from the index, the result names the step \<open>unknown\<close>, not
  the stage.
\<close>

theorem pipeline_error_state_counterexample:
  "update_repository_pipeline (example_services git_offline unused unused unused)
       (str ''r-1'') (str ''demo'') (str ''repo_r_1'') True (str ''text-embedding-3-small'')
       active_world =
     (Failed (str ''diff'') (str ''Failed to get diff: fatal: unable to access the remote''),
      active_world\<lparr>git_log := [git_fetch], repo_status := str ''active'',
        repo_vectordb_status := str ''error''\<rparr>)
   \<and> str ''active'' \<noteq> str ''error''
   \<and> update_repository_pipeline
       (example_services (git_prints (str ''a.py\<newline>''))
          (Inl (Exception (str ''connection lost''))) unused unused)
       (str ''r-1'') (str ''demo'') (str ''repo_r_1'') True (str ''text-embedding-3-small'')
       active_world =
     (Failed (str ''unknown'') (str ''connection lost''),
      active_world\<lparr>git_log := [git_fetch, git_diff, checkout_main, git_pull],
        calls := [Delete_entities (str ''repo_r_1'') [str ''a.json'']],
        repo_status := str ''error'', repo_vectordb_status := str ''error''\<rparr>)"
  by (simp add: run_defs)

text \<open>
  C4, amended: when a stage reports a failure in its result, the pipeline ends there:
  the state is the one that stage left, so no later stage has run and none has run
  twice, and the result is a failure with the name of the stage (\<open>diff\<close>, \<open>pull\<close>,
  \<open>delete_entities\<close>, \<open>parse\<close>, \<open>embed\<close>). The stored status of the repository is then
  \<open>error\<close> after a failed pull or parsing and \<open>active\<close> after a failed detection,
  deletion or embedding; the failed embedding is the last call of a service. An exception
  that leaves the body is reported with the step \<open>unknown\<close> and both states \<open>error\<close>.
  After every failure the status of the vector index is \<open>error\<close>.
\<close>

theorem pipeline_stage_failure:
  "let start = update_repository_status w (str ''updating'') (str ''pending'');
       result =
         update_repository_pipeline sv repo_id repo_name collection_name save_json model_key w
   in (\<forall>d w1. diff_files sv repo_name start = (Inr d, w1) \<and> \<not> diff_success d \<longrightarrow>
         result =
           (Failed (str ''diff'') (str ''Failed to get diff: '' @ fmt (diff_error d)),
            update_repository_status w1 (str ''active'') (str ''error'')))
    \<and> (\<forall>fs w1 p w2.
          detecting_changes sv repo_name start = (Inr fs, w1) \<and>
          pull_repository sv repo_name w1 = (p, w2) \<and> \<not> pull_success p \<longrightarrow>
         result =
           (Failed (str ''pull'') (str ''Git pull failed: '' @ fmt (pull_error p)),
            update_repository_status w2 (str ''error'') (str ''error'')))
    \<and> (\<forall>fs w1 w2 dr x.
          detecting_changes sv repo_name start = (Inr fs, w1) \<and>
          pulling sv repo_name w1 = (Inr (), w2) \<and> fs \<noteq> [] \<and>
          delete_entities sv collection_name fs (ext w2) = (Inr dr, x) \<and>
          \<not> delete_success dr \<longrightarrow>
         result =
           (Failed (str ''delete_entities'')
              (str ''Failed to delete entities: '' @ fmt (delete_error dr)),
            update_repository_status
              (w2\<lparr>ext := x, calls := calls w2 @ [Delete_entities collection_name fs]\<rparr>)
              (str ''active'') (str ''error'')))
    \<and> (\<forall>fs w1 w2 n w3 pr x.
          detecting_changes sv repo_name start = (Inr fs, w1) \<and>
          pulling sv repo_name w1 = (Inr (), w2) \<and>
          invalidating sv collection_name fs
            (update_repository_status w2 (str ''updating'') (str ''updating'')) = (Inr n, w3) \<and>
          parse_repository sv repo_name save_json (ext w3) = (Inr pr, x) \<and>
          \<not> parse_success pr \<longrightarrow>
         result =
           (Failed (str ''parse'') (str ''Parsing failed: None''),
            update_repository_status
              (w3\<lparr>ext := x, calls := calls w3 @ [Parse_repository repo_name save_json]\<rparr>)
              (str ''error'') (str ''error'')))
    \<and> (\<forall>fs w1 w2 n w3 m w4 f w5.
          detecting_changes sv repo_name start = (Inr fs, w1) \<and>
          pulling sv repo_name w1 = (Inr (), w2) \<and>
          invalidating sv collection_name fs
            (update_repository_status w2 (str ''updating'') (str ''updating'')) = (Inr n, w3) \<and>
          reparsing sv repo_name save_json w3 = (Inr m, w4) \<and> fs \<noteq> [] \<and>
          embed_changed sv repo_name collection_name model_key fs 0 w4 = (Inr (Inl f), w5) \<longrightarrow>
         result =
           (Failed (str ''embed'') (str ''Embedding failed for '' @ f),
            update_repository_status w5 (str ''active'') (str ''error''))
         \<and> (\<exists>earlier. calls w5 = calls w4 @ earlier @
               [Embed_documents (json_file_path repo_name f) collection_name model_key]))
    \<and> (\<forall>e w'.
          pipeline_body sv repo_name collection_name save_json model_key w = (Inl e, w') \<longrightarrow>
         result =
           (Failed (str ''unknown'') (exn_text e),
            update_repository_status w' (str ''error'') (str ''error'')))
    \<and> (\<forall>step err w'. result = (Failed step err, w') \<longrightarrow>
          repo_vectordb_status w' = str ''error'')"
proof -
  let ?start = "update_repository_status w (str ''updating'') (str ''pending'')"
  let ?result =
    "update_repository_pipeline sv repo_id repo_name collection_name save_json model_key w"
  have diff: "?result =
      (Failed (str ''diff'') (str ''Failed to get diff: '' @ fmt (diff_error d)),
       update_repository_status w1 (str ''active'') (str ''error''))"
    if "diff_files sv repo_name ?start = (Inr d, w1)" and "\<not> diff_success d" for d w1
  proof -
    have "detecting_changes sv repo_name ?start =
        (Inl (Inr (Failed (str ''diff'') (str ''Failed to get diff: '' @ fmt (diff_error d)))),
         update_repository_status w1 (str ''active'') (str ''error''))"
      using that by (simp add: detecting_changes_def)
    then show ?thesis
      by (simp add: update_repository_pipeline_def pipeline_body_def)
  qed
  have pull: "?result =
      (Failed (str ''pull'') (str ''Git pull failed: '' @ fmt (pull_error p)),
       update_repository_status w2 (str ''error'') (str ''error''))"
    if "detecting_changes sv repo_name ?start = (Inr fs, w1)"
      and "pull_repository sv repo_name w1 = (p, w2)" and "\<not> pull_success p" for fs w1 p w2
  proof -
    have "pulling sv repo_name w1 =
        (Inl (Inr (Failed (str ''pull'') (str ''Git pull failed: '' @ fmt (pull_error p)))),
         update_repository_status w2 (str ''error'') (str ''error''))"
      using that(2,3) by (simp add: pulling_def)
    then show ?thesis
      using that(1) by (simp add: update_repository_pipeline_def pipeline_body_def)
  qed
  have delete: "?result =
      (Failed (str ''delete_entities'')
         (str ''Failed to delete entities: '' @ fmt (delete_error dr)),
       update_repository_status
         (w2\<lparr>ext := x, calls := calls w2 @ [Delete_entities collection_name fs]\<rparr>)
         (str ''active'') (str ''error''))"
    if "detecting_changes sv repo_name ?start = (Inr fs, w1)"
      and "pulling sv repo_name w1 = (Inr (), w2)" and "fs \<noteq> []"
      and "delete_entities sv collection_name fs (ext w2) = (Inr dr, x)"
      and "\<not> delete_success dr" for fs w1 w2 dr x
  proof -
    let ?w2 = "update_repository_status w2 (str ''updating'') (str ''updating'')"
    have "invalidating sv collection_name fs ?w2 =
        (Inl (Inr (Failed (str ''delete_entities'')
           (str ''Failed to delete entities: '' @ fmt (delete_error dr)))),
         update_repository_status
           (?w2\<lparr>ext := x, calls := calls ?w2 @ [Delete_entities collection_name fs]\<rparr>)
           (str ''active'') (str ''error''))"
      using that(3-5) by (simp add: invalidating_def Let_def update_repository_status_fields)
    moreover have "update_repository_status
           (?w2\<lparr>ext := x, calls := calls ?w2 @ [Delete_entities collection_name fs]\<rparr>)
           (str ''active'') (str ''error'') =
         update_repository_status
           (w2\<lparr>ext := x, calls := calls w2 @ [Delete_entities collection_name fs]\<rparr>)
           (str ''active'') (str ''error'')"
      by (simp add: update_repository_status_def)
    ultimately show ?thesis
      using that(1,2) by (simp add: update_repository_pipeline_def pipeline_body_def)
  qed
  have parse: "?result =
      (Failed (str ''parse'') (str ''Parsing failed: None''),
       update_repository_status
         (w3\<lparr>ext := x, calls := calls w3 @ [Parse_repository repo_name save_json]\<rparr>)
         (str ''error'') (str ''error''))"
    if "detecting_changes sv repo_name ?start = (Inr fs, w1)"
      and "pulling sv repo_name w1 = (Inr (), w2)"
      and "invalidating sv collection_name fs
            (update_repository_status w2 (str ''updating'') (str ''updating'')) = (Inr n, w3)"
      and "parse_repository sv repo_name save_json (ext w3) = (Inr pr, x)"
      and "\<not> parse_success pr" for fs w1 w2 n w3 pr x
  proof -
    have "reparsing sv repo_name save_json w3 =
        (Inl (Inr (Failed (str ''parse'') (str ''Parsing failed: None''))),
         update_repository_status
           (w3\<lparr>ext := x, calls := calls w3 @ [Parse_repository repo_name save_json]\<rparr>)
           (str ''error'') (str ''error''))"
      using that(4,5) by (simp add: reparsing_def Let_def str_def)
    then show ?thesis
      using that(1-3) by (simp add: update_repository_pipeline_def pipeline_body_def)
  qed
  have embed: "?result =
      (Failed (str ''embed'') (str ''Embedding failed for '' @ f),
       update_repository_status w5 (str ''active'') (str ''error''))"
    if "detecting_changes sv repo_name ?start = (Inr fs, w1)"
      and "pulling sv repo_name w1 = (Inr (), w2)"
      and "invalidating sv collection_name fs
            (update_repository_status w2 (str ''updating'') (str ''updating'')) = (Inr n, w3)"
      and "reparsing sv repo_name save_json w3 = (Inr m, w4)" and "fs \<noteq> []"
      and "embed_changed sv repo_name collection_name model_key fs 0 w4 = (Inr (Inl f), w5)"
    for fs w1 w2 n w3 m w4 f w5
  proof -
    have "embedding sv repo_name collection_name model_key fs w4 =
        (Inl (Inr (Failed (str ''embed'') (str ''Embedding failed for '' @ f))),
         update_repository_status w5 (str ''active'') (str ''error''))"
      using that(5,6) by (simp add: embedding_def)
    then show ?thesis
      using that(1-4) by (simp add: update_repository_pipeline_def pipeline_body_def)
  qed
  have raised: "?result =
      (Failed (str ''unknown'') (exn_text e),
       update_repository_status w' (str ''error'') (str ''error''))"
    if "pipeline_body sv repo_name collection_name save_json model_key w = (Inl e, w')" for e w'
    using that by (simp add: update_repository_pipeline_def)
  show ?thesis
    unfolding Let_def
    apply (intro conjI allI impI)
    subgoal using diff by blast
    subgoal using pull by blast
    subgoal using delete by blast
    subgoal using parse by blast
    subgoal using embed by blast
    subgoal using embed_changed_failed by blast
    subgoal using raised by blast
    subgoal using pipeline_failed_status by blast
    done
qed

theorem pipeline_stage_failure_witness:
  "update_repository_pipeline (example_services git_offline unused unused unused)
       (str ''r-1'') (str ''demo'') (str ''repo_r_1'') True (str ''text-embedding-3-small'')
       active_world =
     (Failed (str ''diff'') (str ''Failed to get diff: fatal: unable to access the remote''),
      active_world\<lparr>git_log := [git_fetch], repo_status := str ''active'',
        repo_vectordb_status := str ''error''\<rparr>)
   \<and> update_repository_pipeline
       (example_services (git_without_main (str ''a.py\<newline>'')) unused unused unused)
       (str ''r-1'') (str ''demo'') (str ''repo_r_1'') True (str ''text-embedding-3-small'')
       active_world =
     (Failed (str ''pull'')
        (str ''Git pull failed: error: pathspec 'main' did not match any file(s) known to git''),
      active_world\<lparr>git_log := [git_fetch, git_diff, checkout_main],
        repo_status := str ''error'', repo_vectordb_status := str ''error''\<rparr>)
   \<and> update_repository_pipeline
       (example_services (git_prints (str ''a.py\<newline>''))
          (Inr \<lparr>delete_success = False, delete_error = Some (str ''no collection'')\<rparr>)
          unused unused)
       (str ''r-1'') (str ''demo'') (str ''repo_r_1'') True (str ''text-embedding-3-small'')
       active_world =
     (Failed (str ''delete_entities'') (str ''Failed to delete entities: no collection''),
      active_world\<lparr>git_log := [git_fetch, git_diff, checkout_main, git_pull],
        calls := [Delete_entities (str ''repo_r_1'') [str ''a.json'']],
        repo_status := str ''active'', repo_vectordb_status := str ''error''\<rparr>)
   \<and> update_repository_pipeline
       (example_services (git_prints (str ''a.py\<newline>''))
          (Inr \<lparr>delete_success = True, delete_error = None\<rparr>)
          (Inr \<lparr>parse_success = False, total_files = 0,
                parse_error = Some (str ''unreadable'')\<rparr>) unused)
       (str ''r-1'') (str ''demo'') (str ''repo_r_1'') True (str ''text-embedding-3-small'')
       active_world =
     (Failed (str ''parse'') (str ''Parsing failed: None''),
      active_world\<lparr>git_log := [git_fetch, git_diff, checkout_main, git_pull],
        calls := [Delete_entities (str ''repo_r_1'') [str ''a.json''],
                  Parse_repository (str ''demo'') True],
        repo_status := str ''error'', repo_vectordb_status := str ''error''\<rparr>)
   \<and> update_repository_pipeline
       (example_services (git_prints (str ''a.py\<newline>''))
          (Inr \<lparr>delete_success = True, delete_error = None\<rparr>)
          (Inr \<lparr>parse_success = True, total_files = 5, parse_error = None\<rparr>)
          (Inr \<lparr>embed_success = False, inserted_count = 0\<rparr>))
       (str ''r-1'') (str ''demo'') (str ''repo_r_1'') True (str ''text-embedding-3-small'')
       active_world =
     (Failed (str ''embed'') (str ''Embedding failed for a.json''),
      active_world\<lparr>git_log := [git_fetch, git_diff, checkout_main, git_pull],
        calls := [Delete_entities (str ''repo_r_1'') [str ''a.json''],
                  Parse_repository (str ''demo'') True,
                  Embed_documents (str ''parsed_repository/demo/a.json'') (str ''repo_r_1'')
                    (str ''text-embedding-3-small'')],
        repo_status := str ''active'', repo_vectordb_status := str ''error'',
        repo_file_count := 5\<rparr>)
   \<and> update_repository_pipeline
       (example_services (git_prints (str ''a.py\<newline>''))
          (Inl (Exception (str ''connection lost''))) unused unused)
       (str ''r-1'') (str ''demo'') (str ''repo_r_1'') True (str ''text-embedding-3-small'')
       active_world =
     (Failed (str ''unknown'') (str ''connection lost''),
      active_world\<lparr>git_log := [git_fetch, git_diff, checkout_main, git_pull],
        calls := [Delete_entities (str ''repo_r_1'') [str ''a.json'']],
        repo_status := str ''error'', repo_vectordb_status := str ''error''\<rparr>)"
proof -
  let ?id = "str ''r-1''" and ?name = "str ''demo''" and ?coll = "str ''repo_r_1''"
    and ?key = "str ''text-embedding-3-small''"
  let ?start = "update_repository_status active_world (str ''updating'') (str ''pending'')"
  let ?diffed = "?start\<lparr>git_log := [git_fetch, git_diff]\<rparr>"
  let ?pulled = "active_world\<lparr>git_log := [git_fetch, git_diff, checkout_main, git_pull],
      repo_status := str ''updating'', repo_vectordb_status := str ''pending''\<rparr>"
  let ?deleted = "active_world\<lparr>git_log := [git_fetch, git_diff, checkout_main, git_pull],
      calls := [Delete_entities ?coll [str ''a.json'']],
      repo_status := str ''updating'', repo_vectordb_status := str ''updating''\<rparr>"
  let ?parsed = "?deleted\<lparr>calls := [Delete_entities ?coll [str ''a.json''],
      Parse_repository ?name True], repo_file_count := 5\<rparr>"
  let ?embedded = "?parsed\<lparr>calls := [Delete_entities ?coll [str ''a.json''],
      Parse_repository ?name True,
      Embed_documents (str ''parsed_repository/demo/a.json'') ?coll ?key]\<rparr>"
  let ?del_ok = "Inr \<lparr>delete_success = True, delete_error = None\<rparr> :: exn + delete_result"
  let ?del_bad = "\<lparr>delete_success = False, delete_error = Some (str ''no collection'')\<rparr>"
  let ?parse_bad = "\<lparr>parse_success = False, total_files = 0,
      parse_error = Some (str ''unreadable'')\<rparr>"
  let ?parse_ok = "Inr \<lparr>parse_success = True, total_files = 5, parse_error = None\<rparr>
      :: exn + parse_result"
  let ?embed_bad = "Inr \<lparr>embed_success = False, inserted_count = 0\<rparr> :: exn + embed_result"
  let ?no_main = "str ''error: pathspec 'main' did not match any file(s) known to git''"

  let ?sv1 = "example_services git_offline unused unused unused"
  have d1: "diff_files ?sv1 ?name ?start =
      (Inr (diff_failed (str ''fatal: unable to access the remote'')),
       ?start\<lparr>git_log := [git_fetch]\<rparr>)
      \<and> \<not> diff_success (diff_failed (str ''fatal: unable to access the remote''))"
    by (simp add: run_defs)
  have r1: "update_repository_pipeline ?sv1 ?id ?name ?coll True ?key active_world =
      (Failed (str ''diff'')
         (str ''Failed to get diff: '' @
          fmt (diff_error (diff_failed (str ''fatal: unable to access the remote'')))),
       update_repository_status (?start\<lparr>git_log := [git_fetch]\<rparr>) (str ''active'')
         (str ''error''))"
    by (rule pipeline_stage_failure [of active_world ?sv1 ?id ?name ?coll True ?key,
          unfolded Let_def, THEN conjunct1, rule_format])
      (rule d1)

  let ?sv2 = "example_services (git_without_main (str ''a.py\<newline>'')) unused unused unused"
  have a2: "detecting_changes ?sv2 ?name ?start = (Inr [str ''a.json''], ?diffed)"
    by (simp add: run_defs)
  have b2: "pull_repository ?sv2 ?name ?diffed =
      (pull_failed ?name ?no_main, ?start\<lparr>git_log := [git_fetch, git_diff, checkout_main]\<rparr>)"
    by (simp add: run_defs)
  have c2: "\<not> pull_success (pull_failed ?name ?no_main)"
    by (simp add: pull_failed_def)
  have r2: "update_repository_pipeline ?sv2 ?id ?name ?coll True ?key active_world =
      (Failed (str ''pull'')
         (str ''Git pull failed: '' @ fmt (pull_error (pull_failed ?name ?no_main))),
       update_repository_status (?start\<lparr>git_log := [git_fetch, git_diff, checkout_main]\<rparr>)
         (str ''error'') (str ''error''))"
    by (rule pipeline_stage_failure [of active_world ?sv2 ?id ?name ?coll True ?key,
          unfolded Let_def, THEN conjunct2, THEN conjunct1, rule_format])
      (rule conjI, rule a2, rule conjI, rule b2, rule c2)

  let ?sv3 = "example_services (git_prints (str ''a.py\<newline>'')) (Inr ?del_bad) unused unused"
  have a3: "detecting_changes ?sv3 ?name ?start = (Inr [str ''a.json''], ?diffed)"
    by (simp add: run_defs)
  have b3: "pulling ?sv3 ?name ?diffed = (Inr (), ?pulled)"
    by (simp add: run_defs)
  have c3: "[str ''a.json''] \<noteq> []"
    by simp
  have d3: "delete_entities ?sv3 ?coll [str ''a.json''] (ext ?pulled) = (Inr ?del_bad, ())"
    by (simp add: example_services_def)
  have e3: "\<not> delete_success ?del_bad"
    by simp
  have r3: "update_repository_pipeline ?sv3 ?id ?name ?coll True ?key active_world =
      (Failed (str ''delete_entities'')
         (str ''Failed to delete entities: '' @ fmt (delete_error ?del_bad)),
       update_repository_status
         (?pulled\<lparr>ext := (),
            calls := calls ?pulled @ [Delete_entities ?coll [str ''a.json'']]\<rparr>)
         (str ''active'') (str ''error''))"
    by (rule pipeline_stage_failure [of active_world ?sv3 ?id ?name ?coll True ?key,
          unfolded Let_def, THEN conjunct2, THEN conjunct2, THEN conjunct1, rule_format])
      (rule conjI, rule a3, rule conjI, rule b3, rule conjI, rule c3, rule conjI, rule d3,
       rule e3)

  let ?sv4 = "example_services (git_prints (str ''a.py\<newline>'')) ?del_ok (Inr ?parse_bad) unused"
  have a4: "detecting_changes ?sv4 ?name ?start = (Inr [str ''a.json''], ?diffed)"
    by (simp add: run_defs)
  have b4: "pulling ?sv4 ?name ?diffed = (Inr (), ?pulled)"
    by (simp add: run_defs)
  have c4: "invalidating ?sv4 ?coll [str ''a.json'']
      (update_repository_status ?pulled (str ''updating'') (str ''updating'')) = (Inr 1, ?deleted)"
    by (simp add: run_defs)
  have d4: "parse_repository ?sv4 ?name True (ext ?deleted) = (Inr ?parse_bad, ())"
    by (simp add: example_services_def)
  have e4: "\<not> parse_success ?parse_bad"
    by simp
  have r4: "update_repository_pipeline ?sv4 ?id ?name ?coll True ?key active_world =
      (Failed (str ''parse'') (str ''Parsing failed: None''),
       update_repository_status
         (?deleted\<lparr>ext := (), calls := calls ?deleted @ [Parse_repository ?name True]\<rparr>)
         (str ''error'') (str ''error''))"
    by (rule pipeline_stage_failure [of active_world ?sv4 ?id ?name ?coll True ?key,
          unfolded Let_def, THEN conjunct2, THEN conjunct2, THEN conjunct2, THEN conjunct1,
          rule_format])
      (rule conjI, rule a4, rule conjI, rule b4, rule conjI, rule c4, rule conjI, rule d4,
       rule e4)

  let ?sv5 = "example_services (git_prints (str ''a.py\<newline>'')) ?del_ok ?parse_ok ?embed_bad"
  have a5: "detecting_changes ?sv5 ?name ?start = (Inr [str ''a.json''], ?diffed)"
    by (simp add: run_defs)
  have b5: "pulling ?sv5 ?name ?diffed = (Inr (), ?pulled)"
    by (simp add: run_defs)
  have c5: "invalidating ?sv5 ?coll [str ''a.json'']
      (update_repository_status ?pulled (str ''updating'') (str ''updating'')) = (Inr 1, ?deleted)"
    by (simp add: run_defs)
  have d5: "reparsing ?sv5 ?name True ?deleted = (Inr 5, ?parsed)"
    by (simp add: run_defs)
  have e5: "embed_changed ?sv5 ?name ?coll ?key [str ''a.json''] 0 ?parsed =
      (Inr (Inl (str ''a.json'')), ?embedded)"
    by (simp add: run_defs split_on.simps)
  have r5: "update_repository_pipeline ?sv5 ?id ?name ?coll True ?key active_world =
      (Failed (str ''embed'') (str ''Embedding failed for '' @ str ''a.json''),
       update_repository_status ?embedded (str ''active'') (str ''error''))"
    by (rule pipeline_stage_failure [of active_world ?sv5 ?id ?name ?coll True ?key,
          unfolded Let_def, THEN conjunct2, THEN conjunct2, THEN conjunct2, THEN conjunct2,
          THEN conjunct1, rule_format, THEN conjunct1])
      (rule conjI, rule a5, rule conjI, rule b5, rule conjI, rule c5, rule conjI, rule d5,
       rule conjI, rule c3, rule e5)

  let ?sv6 = "example_services (git_prints (str ''a.py\<newline>''))
      (Inl (Exception (str ''connection lost''))) unused unused"
  have a6: "pipeline_body ?sv6 ?name ?coll True ?key active_world =
      (Inl (Exception (str ''connection lost'')), ?deleted)"
    by (simp add: run_defs)
  have r6: "update_repository_pipeline ?sv6 ?id ?name ?coll True ?key active_world =
      (Failed (str ''unknown'') (exn_text (Exception (str ''connection lost''))),
       update_repository_status ?deleted (str ''error'') (str ''error''))"
    by (rule pipeline_stage_failure [of active_world ?sv6 ?id ?name ?coll True ?key,
          unfolded Let_def, THEN conjunct2, THEN conjunct2, THEN conjunct2, THEN conjunct2,
          THEN conjunct2, THEN conjunct1, rule_format])
      (rule a6)
  show ?thesis
    unfolding r1 r2 r3 r4 r5 r6
    by (simp add: diff_failed_def pull_failed_def update_repository_status_def active_world_def
        str_def)
qed

end
